theory Spec2Isabelle
  imports Complex_Main
begin

section \<open>JavaScript values\<close>

text \<open>
  The controller tests several fields with JavaScript's own notions of type and truth
  (\<^verbatim>\<open>typeof v === 'string'\<close>, \<^verbatim>\<open>!v\<close>). The values that can reach those tests
  are modelled by one datatype; numbers are integers here, since no number that reaches
  such a test is fractional.
\<close>

datatype jsvalue =
    JUndefined
  | JNull
  | JBool bool
  | JNumber int
  | JString string
  | JObject

fun typeof :: "jsvalue \<Rightarrow> string" where
  "typeof JUndefined = ''undefined''"
| "typeof JNull = ''object''"
| "typeof (JBool b) = ''boolean''"
| "typeof (JNumber n) = ''number''"
| "typeof (JString s) = ''string''"
| "typeof JObject = ''object''"

fun truthy :: "jsvalue \<Rightarrow> bool" where
  "truthy JUndefined = False"
| "truthy JNull = False"
| "truthy (JBool b) = b"
| "truthy (JNumber n) = (n \<noteq> 0)"
| "truthy (JString s) = (s \<noteq> [])"
| "truthy JObject = True"

text \<open>\<^verbatim>\<open>String.prototype.startsWith\<close> and \<^verbatim>\<open>String.prototype.slice(a, b)\<close> for
  non-negative indices.\<close>

definition startsWith :: "string \<Rightarrow> string \<Rightarrow> bool" where
  "startsWith s p = (take (length p) s = p)"

definition slice :: "nat \<Rightarrow> nat \<Rightarrow> 'a list \<Rightarrow> 'a list" where
  "slice a b xs = take (b - a) (drop a xs)"

text \<open>The decimal rendering of a non-negative integer, as a template literal prints
  \<^verbatim>\<open>Date.now()\<close> or an index.\<close>

definition digit :: "nat \<Rightarrow> char" where
  "digit d = ''0123456789'' ! d"

fun decimal :: "nat \<Rightarrow> string" where
  "decimal n = (if n < 10 then [digit n] else decimal (n div 10) @ [digit (n mod 10)])"

declare decimal.simps [simp del]

section \<open>utils/replicateTraining.js\<close>

text \<open>
  \<^verbatim>\<open>randomToken = () => Math.random().toString(36).slice(2, 10)\<close>: the argument is the
  base-36 rendering of the random number drawn, \<^verbatim>\<open>"0.k3j9..."\<close> (or \<^verbatim>\<open>"0"\<close>).
\<close>

definition randomToken :: "string \<Rightarrow> string" where
  "randomToken random36 = slice 2 10 random36"

text \<open>The default parameter \<^verbatim>\<open>modelName = 'model'\<close> replaces \<^verbatim>\<open>undefined\<close> only; every
  other non-string is replaced by the \<^verbatim>\<open>typeof\<close> test.\<close>

definition safeName :: "jsvalue \<Rightarrow> string" where
  "safeName modelName =
     (let modelName' = (if modelName = JUndefined then JString ''model'' else modelName)
      in case modelName' of JString s \<Rightarrow> s | _ \<Rightarrow> ''model'')"

definition createPendingReplicateId :: "nat \<Rightarrow> string \<Rightarrow> jsvalue \<Rightarrow> string" where
  "createPendingReplicateId dateNow random36 modelName =
     ''pending:'' @ safeName modelName @ '':'' @ decimal dateNow @ '':'' @ randomToken random36"

definition isPendingReplicateId :: "jsvalue \<Rightarrow> bool" where
  "isPendingReplicateId v = (typeof v = ''string'' \<and> (case v of JString s \<Rightarrow> startsWith s ''pending:'' | _ \<Rightarrow> False))"

section \<open>Job records\<close>

record imageAsset =
  asset_id :: "nat option"
  asset_key :: "string option"
  asset_url :: "string option"
  asset_size :: "nat option"
  contentType :: "string option"
  uploadedAt :: "nat option"
  originalName :: "string option"
  asset_name :: "string option"

record event =
  ev_type :: string
  ev_message :: string
  ev_metadata :: "(string \<times> jsvalue) list"
  ev_timestamp :: nat

record trainingConfig =
  cfg_steps :: rat
  cfg_learningRate :: rat
  cfg_batchSize :: rat
  cfg_triggerWord :: string
  cfg_source :: string
  cfg_zipPath :: string
  cfg_zipUrl :: string
  cfg_userAssetIds :: "nat option list option"

text \<open>
  A Training document. The array fields are optional because the list endpoints read raw
  documents and guard against a missing array; \<open>replicateTrainingId\<close> is a JavaScript value
  because the controller tests it for falsiness and for being a string.
\<close>

record training =
  t_id :: nat
  userId :: nat
  modelName :: string
  imageUrls :: "string list option"
  imageAssets :: "imageAsset list option"
  status :: string
  progress :: int
  logsUrl :: "string option"
  replicateTrainingId :: jsvalue
  trainingConfig :: "trainingConfig option"
  attempts :: int
  events :: "event list"
  error :: "string option"
  modelVersion :: "string option"
  startedAt :: "nat option"
  completedAt :: "nat option"

text \<open>The Training collection, and the external effects of a request in the order they
  are issued.\<close>

datatype effect =
    ReplicateTrainingsGet jsvalue
  | ReplicateTrainingsCancel jsvalue
  | ReplicateModelsCreate string string
  | ProcessTrainingEvent nat string string
  | DispatchTraining nat
  | BroadcastTraining nat
  | TrainingCreate training
  | UploadBufferToS3 string
  | DeleteFromS3 string

record world =
  trainings :: "training list"
  trace :: "effect list"

text \<open>A request parameter that names a document: absent, not an ObjectId (Mongoose
  throws a cast error), or an ObjectId. A collection is the list of its documents, each
  carrying its own \<^verbatim>\<open>_id\<close>.\<close>

datatype idparam = NoId | BadId string | GoodId nat

definition findById :: "('a \<Rightarrow> nat) \<Rightarrow> 'a list \<Rightarrow> idparam \<Rightarrow> string + 'a option" where
  "findById idOf coll p =
     (case p of
        NoId \<Rightarrow> Inr None
      | BadId s \<Rightarrow> Inl (''Cast to ObjectId failed for value \"'' @ s @ ''\"'')
      | GoodId n \<Rightarrow> Inr (find (\<lambda>d. idOf d = n) coll))"

text \<open>\<^verbatim>\<open>findByIdAndUpdate\<close>: the first document with that id is updated; nothing happens
  when there is none.\<close>

fun findByIdAndUpdate :: "training list \<Rightarrow> nat \<Rightarrow> (training \<Rightarrow> training) \<Rightarrow> training list" where
  "findByIdAndUpdate [] n f = []"
| "findByIdAndUpdate (d # rest) n f =
     (if t_id d = n then f d # rest else d # findByIdAndUpdate rest n f)"

definition emit :: "effect \<Rightarrow> world \<Rightarrow> world" where
  "emit e w = w\<lparr>trace := trace w @ [e]\<rparr>"

section \<open>Responses\<close>

record response =
  statusCode :: nat
  success :: bool
  message :: "string option"
  data :: "training option"
  errorMessage :: "string option"

definition reply :: "nat \<Rightarrow> bool \<Rightarrow> string \<Rightarrow> response" where
  "reply c ok m = \<lparr>statusCode = c, success = ok, message = Some m, data = None, errorMessage = None\<rparr>"

definition replyData :: "nat \<Rightarrow> string option \<Rightarrow> training option \<Rightarrow> response" where
  "replyData c m d = \<lparr>statusCode = c, success = True, message = m, data = d, errorMessage = None\<rparr>"

definition replyError :: "string \<Rightarrow> string \<Rightarrow> response" where
  "replyError m e = \<lparr>statusCode = 500, success = False, message = Some m, data = None, errorMessage = Some e\<rparr>"

section \<open>What the controller calls outside itself\<close>

text \<open>The provider's answer to \<^verbatim>\<open>replicate.trainings.get\<close>; only \<open>status\<close> is read by the
  controller.\<close>

record replicateTraining =
  rt_id :: string
  rt_status :: string

text \<open>
  The outcomes of the calls that leave the process, as parameters: an \<open>Inl\<close> or a \<open>Some\<close>
  message is the call throwing an error with that message.
  \<open>processTrainingEvent\<close> (services/trainingWorkflow) is the event-ingestion entry point; it
  receives the record id, the provider's answer and the event type, and rewrites the
  collection.
\<close>

record cancelEnv =
  trainingsCancel :: "jsvalue \<Rightarrow> string option"
  cancelNow :: nat

record statusEnv =
  trainingsGet :: "jsvalue \<Rightarrow> string + replicateTraining"
  processTrainingEvent ::
    "nat \<Rightarrow> replicateTraining \<Rightarrow> string \<Rightarrow> training list \<Rightarrow> string + training list"

text \<open>Modelled from the spec: \<^verbatim>\<open>populateTrainingForClient\<close> of services/trainingWorkflow,
  which is not among the sources; it returns the now-current record for an id (the
  population of the owner reference is not modelled).\<close>

definition populateTrainingForClient :: "world \<Rightarrow> nat \<Rightarrow> training option" where
  "populateTrainingForClient w n = find (\<lambda>d. t_id d = n) (trainings w)"

text \<open>Modelled from the spec: \<^verbatim>\<open>broadcastTraining\<close> of services/trainingWorkflow, which is
  not among the sources; it notifies the Broadcaster of a record id.\<close>

definition broadcastTraining :: "nat \<Rightarrow> world \<Rightarrow> world" where
  "broadcastTraining n w = emit (BroadcastTraining n) w"

section \<open>cancelTraining\<close>

definition notDispatched :: "training \<Rightarrow> bool" where
  "notDispatched t = (\<not> truthy (replicateTrainingId t) \<or> isPendingReplicateId (replicateTrainingId t))"

definition canceledEvent :: "training \<Rightarrow> nat \<Rightarrow> event" where
  "canceledEvent t now =
     \<lparr>ev_type = ''canceled'', ev_message = ''Training canceled by user'',
      ev_metadata = [(''replicateTrainingId'', replicateTrainingId t)], ev_timestamp = now\<rparr>"

definition cancelTraining :: "cancelEnv \<Rightarrow> idparam \<Rightarrow> world \<Rightarrow> response \<times> world" where
  "cancelTraining env rid w =
     (case findById t_id (trainings w) rid of
        Inl e \<Rightarrow> (replyError ''Failed to cancel training'' e, w)
      | Inr None \<Rightarrow> (reply 404 False ''Training not found'', w)
      | Inr (Some t) \<Rightarrow>
          if notDispatched t
          then (reply 400 False ''Training has not been dispatched to Replicate yet.'', w)
          else
            let w1 = emit (ReplicateTrainingsCancel (replicateTrainingId t)) w in
            (case trainingsCancel env (replicateTrainingId t) of
               Some e \<Rightarrow> (replyError ''Failed to cancel training'' e, w1)
             | None \<Rightarrow>
                 let now = cancelNow env;
                     w2 = w1\<lparr>trainings := findByIdAndUpdate (trainings w1) (t_id t)
                            (\<lambda>d. d\<lparr>status := ''canceled'', completedAt := Some now,
                                    events := events d @ [canceledEvent t now]\<rparr>)\<rparr>;
                     updatedTraining = populateTrainingForClient w2 (t_id t);
                     w3 = broadcastTraining (t_id t) w2
                 in (replyData 200 (Some ''Training canceled successfully'') updatedTraining, w3)))"

section \<open>checkTrainingStatus\<close>

definition eventTypeOf :: "replicateTraining \<Rightarrow> string" where
  "eventTypeOf r =
     (if rt_status r \<in> set [''succeeded'', ''failed'', ''canceled''] then ''completed'' else ''update'')"

definition checkTrainingStatus :: "statusEnv \<Rightarrow> idparam \<Rightarrow> world \<Rightarrow> response \<times> world" where
  "checkTrainingStatus env rid w =
     (case findById t_id (trainings w) rid of
        Inl e \<Rightarrow> (replyError ''Failed to check training status'' e, w)
      | Inr None \<Rightarrow> (reply 404 False ''Training not found'', w)
      | Inr (Some t) \<Rightarrow>
          if notDispatched t
          then (replyData 200 None (Some t), w)
          else
            let w1 = emit (ReplicateTrainingsGet (replicateTrainingId t)) w in
            (case trainingsGet env (replicateTrainingId t) of
               Inl e \<Rightarrow> (replyError ''Failed to check training status'' e, w1)
             | Inr r \<Rightarrow>
                 let eventType = eventTypeOf r;
                     w2 = emit (ProcessTrainingEvent (t_id t) (rt_status r) eventType) w1 in
                 (case processTrainingEvent env (t_id t) r eventType (trainings w2) of
                    Inl e \<Rightarrow> (replyError ''Failed to check training status'' e, w2)
                  | Inr coll \<Rightarrow>
                      let w3 = w2\<lparr>trainings := coll\<rparr>;
                          updated = populateTrainingForClient w3 (t_id t)
                      in (replyData 200 None updated, w3))))"

text \<open>The client offers the cancel action for these statuses only (the training list page:
  \<^verbatim>\<open>showCancel = ['queued', 'starting', 'processing'].includes(training.status)\<close>).\<close>

definition showCancel :: "training \<Rightarrow> bool" where
  "showCancel t = (status t \<in> set [''queued'', ''starting'', ''processing''])"

definition terminal :: "string \<Rightarrow> bool" where
  "terminal s = (s \<in> set [''succeeded'', ''failed'', ''canceled''])"

section \<open>startTraining\<close>

text \<open>
  What a handler's \<^verbatim>\<open>try\<close> block can do at each step: go on with a value, send a response
  and return, or throw an error with a message.
\<close>

datatype 'a outcome = Value 'a | Respond response | Throw string

type_synonym buffer = "nat list"

record uploadedFile =
  file_buffer :: buffer
  originalname :: "string option"
  mimetype :: "string option"
  file_size :: "nat option"

record sourceAsset =
  src_buffer :: buffer
  src_originalName :: string
  src_contentType :: string
  src_size :: "nat option"

record user =
  u_id :: nat
  u_name :: string
  u_imageAssets :: "imageAsset list option"

record trainingConfigInput =
  in_steps :: "rat option"
  in_loraRank :: "rat option"
  in_batchSize :: "rat option"
  in_learningRate :: "rat option"

record trainingInput =
  input_images :: string
  steps :: rat
  lora_rank :: rat
  batch_size :: rat
  learning_rate :: rat
  trigger_word :: string

record replicateArgs =
  ra_owner :: string
  ra_project :: string
  ra_version :: string
  ra_input :: trainingInput
  ra_destination :: "string option"

record startRequest =
  files :: "uploadedFile list option"
  body_userId :: idparam
  body_modelName :: "string option"
  body_trainingConfig :: "trainingConfigInput option"

record fetchResponse =
  resp_ok :: bool
  resp_status :: nat
  resp_body :: buffer

text \<open>
  The outcomes of everything \<open>startTraining\<close> calls outside the controller, as parameters.
  An \<open>Inl\<close> or \<open>Some\<close> message is the call throwing. \<open>dispatchTraining\<close>
  (services/trainingWorkflow) receives the record id and the provider arguments, rewrites
  the collection and may throw. The Node library functions on paths and URLs are parameters
  as well. The Training collection itself is taken to be available: \<^verbatim>\<open>Training.create\<close> and
  \<^verbatim>\<open>Training.findByIdAndUpdate\<close> do not throw.
\<close>

record startEnv =
  users :: "user list"
  extname :: "string \<Rightarrow> string"
  basename :: "string \<Rightarrow> string"
  parseUrl :: "string \<Rightarrow> string option"
  encodeURI :: "string \<Rightarrow> string"
  tmpdir :: string
  downloadFromS3 :: "string \<Rightarrow> string + buffer"
  fetch :: "string \<Rightarrow> string + fetchResponse"
  nameTimestamp :: nat
  ensureDir :: "string \<Rightarrow> string option"
  archiveFinalize :: "string \<Rightarrow> (string \<times> buffer) list \<Rightarrow> string option"
  readFile :: "string \<Rightarrow> string + buffer"
  fsRemove :: "string \<Rightarrow> string option"
  generateTrainingImageKey :: "string \<Rightarrow> string \<Rightarrow> nat \<Rightarrow> string"
  generateTrainingZipKey :: "string \<Rightarrow> string"
  uploadBufferToS3 :: "buffer \<Rightarrow> string \<Rightarrow> string \<Rightarrow> string + string"
  uploadTime :: "nat \<Rightarrow> nat"
  replicateUsername :: "string option"
  modelsCreate :: "string \<Rightarrow> string \<Rightarrow> string option"
  pendingNow :: nat
  pendingRandom36 :: string
  newObjectId :: nat
  createdTime :: nat
  dispatchTraining :: "nat \<Rightarrow> replicateArgs \<Rightarrow> training list \<Rightarrow> string option \<times> training list"
  failureTime :: nat

definition MAX_TRAINING_IMAGES :: nat where
  "MAX_TRAINING_IMAGES = 25"

text \<open>\<^verbatim>\<open>a || b\<close> on an optional string: \<^verbatim>\<open>undefined\<close>, \<^verbatim>\<open>null\<close> and the empty string are
  falsy.\<close>

definition present :: "string option \<Rightarrow> bool" where
  "present a = (case a of None \<Rightarrow> False | Some s \<Rightarrow> s \<noteq> [])"

definition orElse :: "string option \<Rightarrow> string \<Rightarrow> string" where
  "orElse a b = (case a of None \<Rightarrow> b | Some s \<Rightarrow> if s = [] then b else s)"

text \<open>\<^verbatim>\<open>String.prototype.toLowerCase\<close> on ASCII letters; other bytes are kept. Strings are
  byte strings here, so a character outside ASCII counts as several characters.\<close>

definition lowerChar :: "char \<Rightarrow> char" where
  "lowerChar c =
     (if 65 \<le> (of_char c :: nat) \<and> (of_char c :: nat) \<le> 90 then char_of (of_char c + (32 :: nat)) else c)"

definition toLowerCase :: "string \<Rightarrow> string" where
  "toLowerCase s = map lowerChar s"

definition guessContentType :: "startEnv \<Rightarrow> string \<Rightarrow> string" where
  "guessContentType env fileName =
     (let ext = toLowerCase (extname env fileName) in
      if ext = ''.png'' then ''image/png''
      else if ext = ''.webp'' then ''image/webp''
      else if ext = ''.gif'' then ''image/gif''
      else if ext = ''.bmp'' then ''image/bmp''
      else if ext = ''.tiff'' \<or> ext = ''.tif'' then ''image/tiff''
      else ''image/jpeg'')"

definition defaultFileName :: "nat \<Rightarrow> string" where
  "defaultFileName index = ''training-image-'' @ decimal (index + 1) @ ''.jpg''"

definition buildFileNameFromAsset :: "startEnv \<Rightarrow> imageAsset option \<Rightarrow> nat \<Rightarrow> string" where
  "buildFileNameFromAsset env asset index =
     (case asset of
        None \<Rightarrow> defaultFileName index
      | Some a \<Rightarrow>
          if present (originalName a) then the (originalName a)
          else if present (asset_key a) then basename env (the (asset_key a))
          else if present (asset_name a) then the (asset_name a)
          else defaultFileName index)"

definition normaliseUrl :: "startEnv \<Rightarrow> string option \<Rightarrow> string option" where
  "normaliseUrl env url =
     (if \<not> present url then None
      else case parseUrl env (the url) of
             Some parsed \<Rightarrow> Some parsed
           | None \<Rightarrow> Some (encodeURI env (the url)))"

definition downloadAssetBuffer :: "startEnv \<Rightarrow> imageAsset \<Rightarrow> nat \<Rightarrow> string + buffer option" where
  "downloadAssetBuffer env asset index =
     (let fromStore =
            (if present (asset_key asset)
             then (case downloadFromS3 env (the (asset_key asset)) of
                     Inr buf \<Rightarrow> if length buf > 0 then Some buf else None
                   | Inl e \<Rightarrow> None)
             else None)
      in case fromStore of
           Some buf \<Rightarrow> Inr (Some buf)
         | None \<Rightarrow>
             if present (asset_url asset)
             then (let targetUrl = normaliseUrl env (asset_url asset) in
                   if \<not> present targetUrl then Inr None
                   else case fetch env (the targetUrl) of
                          Inl e \<Rightarrow> Inl e
                        | Inr resp \<Rightarrow>
                            if \<not> resp_ok resp
                            then Inl (''Failed to download image from '' @ the targetUrl
                                      @ '' (status '' @ decimal (resp_status resp) @ '')'')
                            else Inr (Some (resp_body resp)))
             else Inr None)"

text \<open>The loop over \<^verbatim>\<open>assetsToProcess\<close>; \<open>index\<close> is the position of the first asset of the
  list. A failed download aborts the request, an empty buffer is skipped.\<close>

fun loadUserAssets :: "startEnv \<Rightarrow> imageAsset list \<Rightarrow> nat \<Rightarrow> string + sourceAsset list" where
  "loadUserAssets env [] index = Inr []"
| "loadUserAssets env (asset # rest) index =
     (case downloadAssetBuffer env asset index of
        Inl e \<Rightarrow>
          Inl (''Failed to load user asset \"''
               @ orElse (originalName asset) (orElse (asset_key asset) (decimal index))
               @ ''\" for training: '' @ e)
      | Inr None \<Rightarrow> loadUserAssets env rest (index + 1)
      | Inr (Some buf) \<Rightarrow>
          if length buf = 0 then loadUserAssets env rest (index + 1)
          else
            (let fileName = buildFileNameFromAsset env (Some asset) index;
                 loaded = \<lparr>src_buffer = buf, src_originalName = fileName,
                           src_contentType = orElse (contentType asset) (guessContentType env fileName),
                           src_size = Some (length buf)\<rparr>
             in case loadUserAssets env rest (index + 1) of
                  Inl e \<Rightarrow> Inl e
                | Inr others \<Rightarrow> Inr (loaded # others)))"

text \<open>An uploaded file has none of \<^verbatim>\<open>originalName\<close>, \<^verbatim>\<open>key\<close>, \<^verbatim>\<open>name\<close>, so
  \<open>buildFileNameFromAsset\<close> sees an object without them.\<close>

definition fileAsAsset :: "uploadedFile \<Rightarrow> imageAsset" where
  "fileAsAsset f =
     \<lparr>asset_id = None, asset_key = None, asset_url = None, asset_size = None, contentType = None,
      uploadedAt = None, originalName = None, asset_name = None\<rparr>"

definition fileSource :: "startEnv \<Rightarrow> uploadedFile \<times> nat \<Rightarrow> sourceAsset" where
  "fileSource env p =
     (case p of (file, index) \<Rightarrow>
        \<lparr>src_buffer = file_buffer file,
         src_originalName =
           orElse (originalname file) (buildFileNameFromAsset env (Some (fileAsAsset file)) index),
         src_contentType =
           orElse (mimetype file) (guessContentType env (case originalname file of None \<Rightarrow> [] | Some n \<Rightarrow> n)),
         src_size = file_size file\<rparr>)"

definition enumerate_from0 :: "'a list \<Rightarrow> ('a \<times> nat) list" where
  "enumerate_from0 xs = zip xs [0 ..< length xs]"

text \<open>The first part of the handler: the owner and the images. The result is the user, the
  source assets and the ids of the user assets used.\<close>

definition incomingFiles :: "startRequest \<Rightarrow> uploadedFile list" where
  "incomingFiles req = (case files req of Some fs \<Rightarrow> fs | None \<Rightarrow> [])"

definition gatherImages ::
  "startEnv \<Rightarrow> startRequest \<Rightarrow> user \<Rightarrow> (sourceAsset list \<times> nat option list) outcome" where
  "gatherImages env req user =
     (let useUserAssets = (length (incomingFiles req) = 0) in
      if useUserAssets then
        (let userAssets = (case u_imageAssets user of Some xs \<Rightarrow> xs | None \<Rightarrow> []) in
         if length userAssets = 0
         then Respond (reply 400 False
                ''Selected user has no uploaded images. Add reference photos before starting training.'')
         else
           let assetsToProcess = slice 0 MAX_TRAINING_IMAGES userAssets;
               userAssetIdsUsed = map asset_id assetsToProcess in
           (case loadUserAssets env assetsToProcess 0 of
              Inl e \<Rightarrow> Throw e
            | Inr sourceAssets \<Rightarrow>
                if length sourceAssets = 0
                then Respond (reply 400 False
                       ''Unable to load user images for training. Please verify the uploaded files and try again.'')
                else Value (sourceAssets, userAssetIdsUsed)))
      else Value (map (fileSource env) (enumerate_from0 (incomingFiles req)), []))"

definition collectSourceAssets ::
  "startEnv \<Rightarrow> startRequest \<Rightarrow> (user \<times> sourceAsset list \<times> nat option list) outcome" where
  "collectSourceAssets env req =
     (case findById u_id (users env) (body_userId req) of
        Inl e \<Rightarrow> Throw e
      | Inr None \<Rightarrow> Respond (reply 404 False ''User not found'')
      | Inr (Some user) \<Rightarrow>
          (case gatherImages env req user of
             Throw e \<Rightarrow> Throw e
           | Respond r \<Rightarrow> Respond r
           | Value (sourceAssets, userAssetIdsUsed) \<Rightarrow>
               if length sourceAssets = 0
               then Respond (reply 400 False
                      ''No training images available. Upload reference photos for the user before starting training.'')
               else Value (user, sourceAssets, userAssetIdsUsed)))"

text \<open>The mutable variables the \<^verbatim>\<open>catch\<close> block of \<open>startTraining\<close> reads.\<close>

record locals =
  uploadedAssets :: "imageAsset list"
  generatedZipKey :: "string option"
  localZipPath :: "string option"

text \<open>\<^verbatim>\<open>.replace(/[^a-z0-9-]/g, '-')\<close>.\<close>

definition replaceUnsafe :: "string \<Rightarrow> string" where
  "replaceUnsafe s =
     map (\<lambda>c. if c \<in> set ''abcdefghijklmnopqrstuvwxyz0123456789-'' then c else CHR ''-'') s"

definition baseModelName :: "startRequest \<Rightarrow> user \<Rightarrow> string" where
  "baseModelName req user = replaceUnsafe (orElse (body_modelName req) (toLowerCase (u_name user)))"

definition uniqueModelName :: "startEnv \<Rightarrow> startRequest \<Rightarrow> user \<Rightarrow> string" where
  "uniqueModelName env req user = baseModelName req user @ ''-'' @ decimal (nameTimestamp env)"

definition archiveName :: "sourceAsset \<times> nat \<Rightarrow> string" where
  "archiveName p = (case p of (asset, index) \<Rightarrow> orElse (Some (src_originalName asset)) (defaultFileName index))"

definition uploadOne :: "startEnv \<Rightarrow> string \<Rightarrow> sourceAsset \<times> nat \<Rightarrow> string \<times> (string + imageAsset)" where
  "uploadOne env uniqueName p =
     (case p of (asset, index) \<Rightarrow>
        let fileName = archiveName (asset, index);
            key = generateTrainingImageKey env uniqueName fileName index
        in (key,
            case uploadBufferToS3 env (src_buffer asset) key (src_contentType asset) of
              Inl e \<Rightarrow> Inl e
            | Inr url \<Rightarrow>
                Inr \<lparr>asset_id = None, asset_key = Some key, asset_url = Some url,
                     asset_size = Some (case src_size asset of Some n \<Rightarrow> n | None \<Rightarrow> length (src_buffer asset)),
                     contentType = Some (src_contentType asset),
                     uploadedAt = Some (uploadTime env index),
                     originalName = Some fileName, asset_name = None\<rparr>))"

text \<open>\<^verbatim>\<open>Promise.all\<close>: all results, or the error of a rejected promise (here the first by
  position).\<close>

fun promiseAll :: "(string + 'a) list \<Rightarrow> string + 'a list" where
  "promiseAll [] = Inr []"
| "promiseAll (Inl e # rest) = Inl e"
| "promiseAll (Inr x # rest) = (case promiseAll rest of Inl e \<Rightarrow> Inl e | Inr xs \<Rightarrow> Inr (x # xs))"

definition emitAll :: "effect list \<Rightarrow> world \<Rightarrow> world" where
  "emitAll es w = w\<lparr>trace := trace w @ es\<rparr>"

text \<open>Archive and upload the dataset. The result carries the values of the mutable
  variables at the point reached, and the zip key and URL when everything succeeded. Every
  uploaded asset carries its key and its URL.\<close>

definition prepareDataset ::
  "startEnv \<Rightarrow> string \<Rightarrow> sourceAsset list \<Rightarrow> world
     \<Rightarrow> (string \<times> string) outcome \<times> locals \<times> world" where
  "prepareDataset env uniqueName sourceAssets w =
     (let none = \<lparr>uploadedAssets = [], generatedZipKey = None, localZipPath = None\<rparr>;
          tempDir = tmpdir env @ ''/training-zips'' in
      case ensureDir env tempDir of
        Some e \<Rightarrow> (Throw e, none, w)
      | None \<Rightarrow>
          let zipPath = tempDir @ ''/'' @ uniqueName @ ''.zip'';
              l1 = none\<lparr>localZipPath := Some zipPath\<rparr>;
              indexed = enumerate_from0 sourceAssets;
              uploads = map (uploadOne env uniqueName) indexed;
              w1 = emitAll (map (\<lambda>u. UploadBufferToS3 (fst u)) uploads) w
          in case archiveFinalize env zipPath (map (\<lambda>p. (archiveName p, src_buffer (fst p))) indexed) of
               Some e \<Rightarrow> (Throw e, l1, w1)
             | None \<Rightarrow>
                 (case promiseAll (map snd uploads) of
                    Inl e \<Rightarrow> (Throw e, l1, w1)
                  | Inr assets \<Rightarrow>
                      let l2 = l1\<lparr>uploadedAssets := assets\<rparr> in
                      (case readFile env zipPath of
                         Inl e \<Rightarrow> (Throw e, l2, w1)
                       | Inr zipBuffer \<Rightarrow>
                           let zipKey = generateTrainingZipKey env uniqueName;
                               l3 = l2\<lparr>generatedZipKey := Some zipKey\<rparr>;
                               w2 = emit (UploadBufferToS3 zipKey) w1
                           in case uploadBufferToS3 env zipBuffer zipKey ''application/zip'' of
                                Inl e \<Rightarrow> (Throw e, l3, w2)
                              | Inr zipUrl \<Rightarrow>
                                  (case fsRemove env zipPath of
                                     Some e \<Rightarrow> (Throw e, l3, w2)
                                   | None \<Rightarrow> (Value (zipKey, zipUrl), l3, w2)))))"

definition configNumber :: "rat option \<Rightarrow> rat \<Rightarrow> rat" where
  "configNumber given fallback = (case given of None \<Rightarrow> fallback | Some x \<Rightarrow> if x = 0 then fallback else x)"

definition buildTrainingInput :: "trainingConfigInput option \<Rightarrow> string \<Rightarrow> string \<Rightarrow> trainingInput" where
  "buildTrainingInput given zipUrl triggerWord =
     (let trainingConfigInput =
            (case given of
               Some c \<Rightarrow> c
             | None \<Rightarrow> \<lparr>in_steps = None, in_loraRank = None, in_batchSize = None, in_learningRate = None\<rparr>)
      in \<lparr>input_images = zipUrl,
          steps = configNumber (in_steps trainingConfigInput) 1000,
          lora_rank = configNumber (in_loraRank trainingConfigInput) 16,
          batch_size = configNumber (in_batchSize trainingConfigInput) 1,
          learning_rate = configNumber (in_learningRate trainingConfigInput) (4 / 10000),
          trigger_word = triggerWord\<rparr>)"

definition trainingConfigRecord ::
  "trainingInput \<Rightarrow> string \<Rightarrow> bool \<Rightarrow> string \<Rightarrow> string \<Rightarrow> nat option list \<Rightarrow> trainingConfig" where
  "trainingConfigRecord input triggerWord useUserAssets zipKey zipUrl userAssetIdsUsed =
     \<lparr>cfg_steps = steps input, cfg_learningRate = learning_rate input, cfg_batchSize = batch_size input,
      cfg_triggerWord = triggerWord,
      cfg_source = (if useUserAssets then ''user-library'' else ''upload''),
      cfg_zipPath = zipKey, cfg_zipUrl = zipUrl,
      cfg_userAssetIds = (if useUserAssets \<and> length userAssetIdsUsed \<noteq> 0 then Some userAssetIdsUsed else None)\<rparr>"

text \<open>The destination model on the provider, created only when \<^verbatim>\<open>REPLICATE_USERNAME\<close> is
  set.\<close>

definition createDestination :: "startEnv \<Rightarrow> string \<Rightarrow> world \<Rightarrow> string option outcome \<times> world" where
  "createDestination env uniqueName w =
     (if present (replicateUsername env)
      then
        (let username = the (replicateUsername env);
             w1 = emit (ReplicateModelsCreate username uniqueName) w in
         case modelsCreate env username uniqueName of
           Some e \<Rightarrow> (Throw (''Failed to create model: '' @ e), w1)
         | None \<Rightarrow> (Value (Some (username @ ''/'' @ uniqueName)), w1))
      else (Value None, w))"

definition createdEvent :: "nat \<Rightarrow> string \<Rightarrow> nat \<Rightarrow> string \<Rightarrow> nat \<Rightarrow> event" where
  "createdEvent uid uniqueName images source now =
     \<lparr>ev_type = ''created'', ev_message = ''Training dataset prepared and queued'',
      ev_metadata = [(''userId'', JNumber (int uid)), (''modelName'', JString uniqueName),
                     (''images'', JNumber (int images)), (''source'', JString source)],
      ev_timestamp = now\<rparr>"

definition newTraining ::
  "startEnv \<Rightarrow> nat \<Rightarrow> string \<Rightarrow> imageAsset list \<Rightarrow> trainingConfig \<Rightarrow> training" where
  "newTraining env uid uniqueName assets config =
     \<lparr>t_id = newObjectId env,
      userId = uid,
      modelName = uniqueName,
      imageUrls = Some (map (\<lambda>a. the (asset_url a)) assets),
      imageAssets = Some assets,
      status = ''queued'',
      progress = 0,
      logsUrl = None,
      replicateTrainingId =
        JString (createPendingReplicateId (pendingNow env) (pendingRandom36 env) (JString uniqueName)),
      trainingConfig = Some config,
      attempts = 0,
      events = [createdEvent uid uniqueName (length assets) (cfg_source config) (createdTime env)],
      error = None,
      modelVersion = None,
      startedAt = None,
      completedAt = None\<rparr>"

definition dispatchErrorEvent :: "string \<Rightarrow> nat \<Rightarrow> event" where
  "dispatchErrorEvent msg now =
     \<lparr>ev_type = ''error'', ev_message = ''Failed to dispatch training: '' @ msg,
      ev_metadata = [(''attempt'', JNumber 1)], ev_timestamp = now\<rparr>"

definition replicateArgsFor :: "trainingInput \<Rightarrow> string option \<Rightarrow> replicateArgs" where
  "replicateArgsFor input destination =
     \<lparr>ra_owner = ''ostris'', ra_project = ''flux-dev-lora-trainer'',
      ra_version = ''e440909d3512c31646ee2e0c7d6f6f4923224863a6a10c494606e79fb5844497'',
      ra_input = input, ra_destination = destination\<rparr>"

text \<open>From \<^verbatim>\<open>Training.create\<close> to the 202 response: create the record, broadcast it,
  dispatch it; a failed dispatch marks the record failed, broadcasts it and rethrows.\<close>

definition createAndDispatch ::
  "startEnv \<Rightarrow> training \<Rightarrow> replicateArgs \<Rightarrow> world \<Rightarrow> response outcome \<times> world" where
  "createAndDispatch env created args w =
     (let w1 = emit (TrainingCreate created) (w\<lparr>trainings := trainings w @ [created]\<rparr>);
          w2 = broadcastTraining (t_id created) w1;
          w3 = emit (DispatchTraining (t_id created)) w2
      in case dispatchTraining env (t_id created) args (trainings w3) of
           (Some e, coll) \<Rightarrow>
             let now = failureTime env;
                 w4 = w3\<lparr>trainings := findByIdAndUpdate coll (t_id created)
                        (\<lambda>d. d\<lparr>status := ''failed'', error := Some e, completedAt := Some now,
                                events := events d @ [dispatchErrorEvent e now]\<rparr>)\<rparr>;
                 w5 = broadcastTraining (t_id created) w4
             in (Throw e, w5)
         | (None, coll) \<Rightarrow>
             let w4 = w3\<lparr>trainings := coll\<rparr>;
                 populatedTraining = populateTrainingForClient w4 (t_id created)
             in (Value (replyData 202 (Some ''Training started successfully'') populatedTraining), w4))"

text \<open>The \<^verbatim>\<open>try\<close> block in two parts: \<open>prepareStart\<close> is everything before
  \<^verbatim>\<open>Training.create\<close> and yields the document to create and the provider arguments;
  \<open>createAndDispatch\<close> is the rest.\<close>

definition prepareStart ::
  "startEnv \<Rightarrow> startRequest \<Rightarrow> world \<Rightarrow> (training \<times> replicateArgs) outcome \<times> locals \<times> world" where
  "prepareStart env req w =
     (let none = \<lparr>uploadedAssets = [], generatedZipKey = None, localZipPath = None\<rparr> in
      case collectSourceAssets env req of
        Throw e \<Rightarrow> (Throw e, none, w)
      | Respond r \<Rightarrow> (Respond r, none, w)
      | Value (user, sourceAssets, userAssetIdsUsed) \<Rightarrow>
          let useUserAssets = (length (incomingFiles req) = 0);
              uniqueName = uniqueModelName env req user;
              triggerWord = baseModelName req user
          in case prepareDataset env uniqueName sourceAssets w of
               (Throw e, l, w1) \<Rightarrow> (Throw e, l, w1)
             | (Respond r, l, w1) \<Rightarrow> (Respond r, l, w1)
             | (Value (zipKey, zipUrl), l, w1) \<Rightarrow>
                 let input = buildTrainingInput (body_trainingConfig req) zipUrl triggerWord;
                     config = trainingConfigRecord input triggerWord useUserAssets
                                zipKey zipUrl userAssetIdsUsed
                 in case createDestination env uniqueName w1 of
                      (Throw e, w2) \<Rightarrow> (Throw e, l, w2)
                    | (Respond r, w2) \<Rightarrow> (Respond r, l, w2)
                    | (Value destination, w2) \<Rightarrow>
                        (Value (newTraining env (u_id user) uniqueName (uploadedAssets l) config,
                                replicateArgsFor input destination), l, w2))"

definition tryStartTraining ::
  "startEnv \<Rightarrow> startRequest \<Rightarrow> world \<Rightarrow> response outcome \<times> locals \<times> world" where
  "tryStartTraining env req w =
     (case prepareStart env req w of
        (Throw e, l, w1) \<Rightarrow> (Throw e, l, w1)
      | (Respond r, l, w1) \<Rightarrow> (Respond r, l, w1)
      | (Value (created, args), l, w1) \<Rightarrow>
          (case createAndDispatch env created args w1 of (out, w2) \<Rightarrow> (out, l, w2)))"

text \<open>The \<^verbatim>\<open>catch\<close> block: delete what was uploaded, then answer 500. Failures of the
  deletions are swallowed.\<close>

definition cleanupAfterError :: "locals \<Rightarrow> world \<Rightarrow> world" where
  "cleanupAfterError l w =
     (let w1 = (case generatedZipKey l of
                  Some zipKey \<Rightarrow> if zipKey \<noteq> [] then emit (DeleteFromS3 zipKey) w else w
                | None \<Rightarrow> w)
      in if length (uploadedAssets l) \<noteq> 0
         then emitAll (map (\<lambda>a. DeleteFromS3 (the (asset_key a))) (uploadedAssets l)) w1
         else w1)"

definition startTraining :: "startEnv \<Rightarrow> startRequest \<Rightarrow> world \<Rightarrow> response \<times> world" where
  "startTraining env req w =
     (case tryStartTraining env req w of
        (Value r, l, w1) \<Rightarrow> (r, w1)
      | (Respond r, l, w1) \<Rightarrow> (r, w1)
      | (Throw e, l, w1) \<Rightarrow> (replyError ''Failed to start training'' e, cleanupAfterError l w1))"

section \<open>getAllTrainings and getTrainingsLean: the listed documents\<close>

text \<open>
  Both list endpoints answer with the documents the database query selected (filter, sort
  and pagination are the database's), transformed one by one. \<open>asArray\<close> is the guard the
  code puts on a stored array that may be missing: \<^verbatim>\<open>Array.isArray(x) ? x : []\<close>,
  \<^verbatim>\<open>x || []\<close>, \<^verbatim>\<open>$ifNull: [x, []]\<close>.
\<close>

definition asArray :: "'a list option \<Rightarrow> 'a list" where
  "asArray xs = (case xs of Some ys \<Rightarrow> ys | None \<Rightarrow> [])"

definition isMinimal :: "jsvalue \<Rightarrow> bool" where
  "isMinimal minimal =
     (typeof minimal = ''string'' \<and> (case minimal of JString s \<Rightarrow> toLowerCase s = ''true'' | _ \<Rightarrow> False))"

text \<open>An entry of \<^verbatim>\<open>data\<close> in the answer of \<open>getAllTrainings\<close>: the document's own fields and,
  in minimal mode only, the two counts.\<close>

record listedTraining =
  listed_doc :: training
  imageAssetCount :: "nat option"
  imageUrlCount :: "nat option"

definition minimalView :: "training \<Rightarrow> listedTraining" where
  "minimalView plain =
     (let assets = asArray (imageAssets plain);
          urls = asArray (imageUrls plain)
      in \<lparr>listed_doc = plain\<lparr>imageAssets := Some (slice 0 12 assets), imageUrls := Some (slice 0 12 urls)\<rparr>,
          imageAssetCount = Some (length assets),
          imageUrlCount = Some (length urls)\<rparr>)"

definition getAllTrainingsData :: "jsvalue \<Rightarrow> training list \<Rightarrow> listedTraining list" where
  "getAllTrainingsData minimal docs =
     (if isMinimal minimal then map minimalView docs
      else map (\<lambda>d. \<lparr>listed_doc = d, imageAssetCount = None, imageUrlCount = None\<rparr>) docs)"

text \<open>The \<^verbatim>\<open>$project\<close> stage of \<open>getTrainingsLean\<close> keeps three fields of every image asset
  and adds the two counts; the \<^verbatim>\<open>$lookup\<close> of the owner rewrites \<open>userId\<close> only and is not
  modelled.\<close>

record leanAsset =
  lean_url :: "string option"
  lean_size :: "nat option"
  lean_contentType :: "string option"

record leanTraining =
  lean_id :: nat
  lean_userId :: nat
  lean_modelName :: string
  lean_status :: string
  lean_progress :: int
  lean_attempts :: int
  lean_modelVersion :: "string option"
  lean_error :: "string option"
  lean_startedAt :: "nat option"
  lean_completedAt :: "nat option"
  lean_imageAssets :: "leanAsset list option"
  lean_imageUrls :: "string list option"
  lean_imageAssetCount :: nat
  lean_imageUrlCount :: nat

definition leanAssetOf :: "imageAsset \<Rightarrow> leanAsset" where
  "leanAssetOf asset =
     \<lparr>lean_url = asset_url asset, lean_size = asset_size asset, lean_contentType = contentType asset\<rparr>"

definition leanProject :: "training \<Rightarrow> leanTraining" where
  "leanProject d =
     \<lparr>lean_id = t_id d, lean_userId = userId d, lean_modelName = modelName d, lean_status = status d,
      lean_progress = progress d, lean_attempts = attempts d, lean_modelVersion = modelVersion d,
      lean_error = error d, lean_startedAt = startedAt d, lean_completedAt = completedAt d,
      lean_imageAssets = Some (map leanAssetOf (asArray (imageAssets d))),
      lean_imageUrls = imageUrls d,
      lean_imageAssetCount = length (asArray (imageAssets d)),
      lean_imageUrlCount = length (asArray (imageUrls d))\<rparr>"

definition leanView :: "leanTraining \<Rightarrow> leanTraining" where
  "leanView t =
     t\<lparr>lean_imageAssets := Some (slice 0 12 (asArray (lean_imageAssets t))),
       lean_imageUrls := Some (slice 0 12 (asArray (lean_imageUrls t)))\<rparr>"

definition getTrainingsLeanData :: "training list \<Rightarrow> leanTraining list" where
  "getTrainingsLeanData docs = map leanView (map leanProject docs)"

section \<open>streamTrainings\<close>

text \<open>
  One streaming connection as a state machine. The state is what the handler set up: the
  response headers, the frames written to the response so far, whether the subscription
  \<open>subscribeToTrainingUpdates\<close> returned is still registered, the period of the heartbeat
  interval while it has not been cleared, and the time since the interval last fired.
\<close>

record stream =
  headers :: "(string \<times> string) list"
  frames :: "string list"
  subscribed :: bool
  heartbeat :: "nat option"
  sinceBeat :: nat

definition frameEnd :: string where
  "frameEnd = [CHR 0x0A, CHR 0x0A]"

definition startFrame :: string where
  "startFrame = '': stream-start'' @ frameEnd"

definition pingFrame :: string where
  "pingFrame = '': ping'' @ frameEnd"

text \<open>What is published: nothing (a falsy payload), a document with a \<^verbatim>\<open>toJSON\<close> method, or
  a plain object.\<close>

datatype payload = NoPayload | Document training | PlainObject training

definition serialiseTraining :: "payload \<Rightarrow> training option" where
  "serialiseTraining p =
     (case p of NoPayload \<Rightarrow> None | Document d \<Rightarrow> Some d | PlainObject d \<Rightarrow> Some d)"

text \<open>\<open>send\<close>, with \<^verbatim>\<open>JSON.stringify\<close> as a parameter.\<close>

definition send :: "(training \<Rightarrow> string) \<Rightarrow> payload \<Rightarrow> stream \<Rightarrow> stream" where
  "send stringify p s =
     (case serialiseTraining p of
        None \<Rightarrow> s
      | Some d \<Rightarrow> s\<lparr>frames := frames s @ [''data: '' @ stringify d @ frameEnd]\<rparr>)"

text \<open>The handler itself: headers, the first frame, the subscription, the interval.\<close>

definition streamTrainings :: stream where
  "streamTrainings =
     \<lparr>headers = [(''Content-Type'', ''text/event-stream''), (''Cache-Control'', ''no-cache''),
                 (''Connection'', ''keep-alive'')],
      frames = [startFrame],
      subscribed = True,
      heartbeat = Some 25000,
      sinceBeat = 0\<rparr>"

text \<open>The \<^verbatim>\<open>close\<close> handler: \<^verbatim>\<open>clearInterval(heartbeat); unsubscribe()\<close>.\<close>

definition onClose :: "stream \<Rightarrow> stream" where
  "onClose s = s\<lparr>heartbeat := None, subscribed := False\<rparr>"

text \<open>Modelled from the spec: the Broadcaster of services/trainingEvents, which is not among
  the sources; a publish invokes the callback of every subscription that is still
  registered.\<close>

definition publish :: "(training \<Rightarrow> string) \<Rightarrow> payload \<Rightarrow> stream \<Rightarrow> stream" where
  "publish stringify p s = (if subscribed s then send stringify p s else s)"

text \<open>The timer of the runtime: while the interval is set, its callback runs once for every
  full period that passes, and writes a ping frame.\<close>

definition elapse :: "nat \<Rightarrow> stream \<Rightarrow> stream" where
  "elapse ms s =
     (case heartbeat s of
        None \<Rightarrow> s
      | Some period \<Rightarrow>
          s\<lparr>frames := frames s @ replicate ((sinceBeat s + ms) div period) pingFrame,
            sinceBeat := (sinceBeat s + ms) mod period\<rparr>)"

datatype streamEvent = Published payload | Elapsed nat | Closed

fun step :: "(training \<Rightarrow> string) \<Rightarrow> stream \<Rightarrow> streamEvent \<Rightarrow> stream" where
  "step stringify s (Published p) = publish stringify p s"
| "step stringify s (Elapsed ms) = elapse ms s"
| "step stringify s Closed = onClose s"

definition run :: "(training \<Rightarrow> string) \<Rightarrow> streamEvent list \<Rightarrow> stream \<Rightarrow> stream" where
  "run stringify es s = foldl (step stringify) s es"

fun elapsedTotal :: "streamEvent list \<Rightarrow> nat" where
  "elapsedTotal [] = 0"
| "elapsedTotal (Elapsed ms # es) = ms + elapsedTotal es"
| "elapsedTotal (e # es) = elapsedTotal es"

text \<open>
  What a connection is expected to carry for a sequence of events, written from the
  specification and not from the handler: every record published while the connection is
  open, whether it arrives as a document or as a plain object, is one discrete message,
  its JSON serialisation between \<^verbatim>\<open>data: \<close> and a blank line; a publish without a record
  is no message; the passing of time is no message; after the close nothing is forwarded.
\<close>

fun expectedDataFrames :: "(training \<Rightarrow> string) \<Rightarrow> streamEvent list \<Rightarrow> string list" where
  "expectedDataFrames stringify [] = []"
| "expectedDataFrames stringify (Published NoPayload # es) = expectedDataFrames stringify es"
| "expectedDataFrames stringify (Published (Document d) # es) =
     (''data: '' @ stringify d @ [CHR 0x0A, CHR 0x0A]) # expectedDataFrames stringify es"
| "expectedDataFrames stringify (Published (PlainObject d) # es) =
     (''data: '' @ stringify d @ [CHR 0x0A, CHR 0x0A]) # expectedDataFrames stringify es"
| "expectedDataFrames stringify (Elapsed ms # es) = expectedDataFrames stringify es"
| "expectedDataFrames stringify (Closed # es) = []"

text \<open>The external effects that can precede the creation of the record.\<close>

fun preEffect :: "effect \<Rightarrow> bool" where
  "preEffect (UploadBufferToS3 k) = True"
| "preEffect (ReplicateModelsCreate u n) = True"
| "preEffect e = False"

text \<open>The external effects that can follow the dispatch call.\<close>

fun postEffect :: "effect \<Rightarrow> bool" where
  "postEffect (BroadcastTraining n) = True"
| "postEffect (DeleteFromS3 k) = True"
| "postEffect e = False"

section \<open>Example records\<close>

definition queuedTraining :: training where
  "queuedTraining =
     \<lparr>t_id = 7, userId = 3, modelName = ''alice-1700000000000'',
      imageUrls = Some [], imageAssets = Some [], status = ''queued'', progress = 0,
      logsUrl = None,
      replicateTrainingId = JString ''pending:alice-1700000000000:1700000000001:k3j9x2ab'',
      trainingConfig = None, attempts = 0, events = [], error = None, modelVersion = None,
      startedAt = None, completedAt = None\<rparr>"

definition processingTraining :: training where
  "processingTraining =
     queuedTraining\<lparr>t_id := 8, status := ''processing'', progress := 40,
       replicateTrainingId := JString ''trn-abc123'', attempts := 1, startedAt := Some 10\<rparr>"

definition succeededTraining :: training where
  "succeededTraining =
     queuedTraining\<lparr>t_id := 9, status := ''succeeded'', progress := 100,
       replicateTrainingId := JString ''trn-xyz789'', attempts := 1, modelVersion := Some ''v1'',
       startedAt := Some 10, completedAt := Some 20\<rparr>"

definition exampleTrainings :: "training list" where
  "exampleTrainings = [queuedTraining, processingTraining, succeededTraining]"

definition exampleWorld :: world where
  "exampleWorld = \<lparr>trainings = exampleTrainings, trace = []\<rparr>"

definition ackEnv :: cancelEnv where
  "ackEnv = \<lparr>trainingsCancel = (\<lambda>h. None), cancelNow = 99\<rparr>"

definition rejectEnv :: cancelEnv where
  "rejectEnv = \<lparr>trainingsCancel = (\<lambda>h. Some ''Request failed with status 422''), cancelNow = 99\<rparr>"

definition exampleStatusEnv :: statusEnv where
  "exampleStatusEnv =
     \<lparr>trainingsGet = (\<lambda>h. Inr \<lparr>rt_id = ''trn'', rt_status = ''succeeded''\<rparr>),
      processTrainingEvent = (\<lambda>n r ty coll. Inr coll)\<rparr>"

definition exampleUser :: user where
  "exampleUser = \<lparr>u_id = 3, u_name = ''Alice'', u_imageAssets = Some []\<rparr>"

definition exampleFile :: uploadedFile where
  "exampleFile =
     \<lparr>file_buffer = [137, 80, 78, 71], originalname = Some ''a.png'', mimetype = Some ''image/png'',
      file_size = Some 4\<rparr>"

definition startEnvWith ::
  "(nat \<Rightarrow> replicateArgs \<Rightarrow> training list \<Rightarrow> string option \<times> training list) \<Rightarrow> startEnv" where
  "startEnvWith dispatch =
     \<lparr>users = [exampleUser],
      extname = (\<lambda>p. ''.png''),
      basename = (\<lambda>p. p),
      parseUrl = (\<lambda>u. Some u),
      encodeURI = (\<lambda>u. u),
      tmpdir = ''/tmp'',
      downloadFromS3 = (\<lambda>k. Inl ''NoSuchKey''),
      fetch = (\<lambda>u. Inl ''offline''),
      nameTimestamp = 1700000000000,
      ensureDir = (\<lambda>d. None),
      archiveFinalize = (\<lambda>p entries. None),
      readFile = (\<lambda>p. Inr [80, 75]),
      fsRemove = (\<lambda>p. None),
      generateTrainingImageKey = (\<lambda>n f i. ''img/'' @ f),
      generateTrainingZipKey = (\<lambda>n. ''zip/'' @ n),
      uploadBufferToS3 = (\<lambda>b k c. Inr (''https://s3/'' @ k)),
      uploadTime = (\<lambda>i. 5),
      replicateUsername = None,
      modelsCreate = (\<lambda>u n. None),
      pendingNow = 1700000000000,
      pendingRandom36 = ''0.k3j9x2ab7f'',
      newObjectId = 10,
      createdTime = 6,
      dispatchTraining = dispatch,
      failureTime = 50\<rparr>"

definition exampleStartEnv :: startEnv where
  "exampleStartEnv = startEnvWith (\<lambda>n a coll. (None, coll))"

definition failingStartEnv :: startEnv where
  "failingStartEnv = startEnvWith (\<lambda>n a coll. (Some ''Replicate API unavailable'', coll))"

definition exampleRequest :: startRequest where
  "exampleRequest =
     \<lparr>files = Some [exampleFile], body_userId = GoodId 3, body_modelName = Some ''alice'',
      body_trainingConfig = None\<rparr>"

definition unknownUserRequest :: startRequest where
  "unknownUserRequest = exampleRequest\<lparr>body_userId := GoodId 4\<rparr>"

definition noImagesRequest :: startRequest where
  "noImagesRequest = exampleRequest\<lparr>files := None\<rparr>"

definition exampleSource :: sourceAsset where
  "exampleSource =
     \<lparr>src_buffer = [137, 80, 78, 71], src_originalName = ''a.png'', src_contentType = ''image/png'',
      src_size = Some 4\<rparr>"

definition exampleUploaded :: imageAsset where
  "exampleUploaded =
     \<lparr>asset_id = None, asset_key = Some ''img/a.png'', asset_url = Some ''https://s3/img/a.png'',
      asset_size = Some 4, contentType = Some ''image/png'', uploadedAt = Some 5,
      originalName = Some ''a.png'', asset_name = None\<rparr>"

definition exampleLocals :: locals where
  "exampleLocals =
     \<lparr>uploadedAssets = [exampleUploaded], generatedZipKey = Some ''zip/alice-1700000000000'',
      localZipPath = Some ''/tmp/training-zips/alice-1700000000000.zip''\<rparr>"

definition exampleInput :: trainingInput where
  "exampleInput = buildTrainingInput None ''https://s3/zip/alice-1700000000000'' ''alice''"

definition exampleCreated :: "startEnv \<Rightarrow> training" where
  "exampleCreated env =
     newTraining env 3 ''alice-1700000000000'' [exampleUploaded]
       (trainingConfigRecord exampleInput ''alice'' False ''zip/alice-1700000000000''
          ''https://s3/zip/alice-1700000000000'' [])"

definition preparedWorld :: world where
  "preparedWorld =
     \<lparr>trainings = exampleTrainings,
      trace = [UploadBufferToS3 ''img/a.png'', UploadBufferToS3 ''zip/alice-1700000000000'']\<rparr>"

definition exampleUrls :: "string list" where
  "exampleUrls = [''u0'', ''u1'', ''u2'', ''u3'', ''u4'', ''u5'', ''u6'', ''u7'', ''u8'', ''u9'',
                  ''u10'', ''u11'', ''u12'', ''u13'']"

definition storedAssetAt :: "string \<Rightarrow> imageAsset" where
  "storedAssetAt u =
     \<lparr>asset_id = Some 1, asset_key = Some (''key/'' @ u), asset_url = Some u, asset_size = Some 2048,
      contentType = Some ''image/png'', uploadedAt = Some 5, originalName = Some ''photo.png'',
      asset_name = None\<rparr>"

definition manyAssetsTraining :: training where
  "manyAssetsTraining =
     queuedTraining\<lparr>imageAssets := Some (map storedAssetAt (take 13 exampleUrls)),
                    imageUrls := Some exampleUrls\<rparr>"

definition fewAssetsTraining :: training where
  "fewAssetsTraining = queuedTraining\<lparr>imageAssets := None, imageUrls := Some [''u0'', ''u1'']\<rparr>"

section \<open>Evaluation lemmas\<close>

lemma decimal_small: "n < 10 \<Longrightarrow> decimal n = [digit n]"
  by (simp add: decimal.simps)

lemma decimal_big: "\<not> n < 10 \<Longrightarrow> decimal n = decimal (n div 10) @ [digit (n mod 10)]"
  by (subst decimal.simps) simp

lemma decimal_example: "decimal 1700000000000 = ''1700000000000''"
  by (simp add: decimal_small decimal_big digit_def)

lemma pending_id_example:
  "createPendingReplicateId 1700000000000 ''0.k3j9x2ab7f'' JNull = ''pending:model:1700000000000:k3j9x2ab''"
  by (simp add: createPendingReplicateId_def safeName_def decimal_example randomToken_def slice_def)

section \<open>Placeholder handles\<close>

text \<open>
  C9. For every input (a model name string or any other value), \<open>createPendingReplicateId\<close>
  yields the prefix \<^verbatim>\<open>pending:\<close> followed by the safe model name (the string itself, or
  \<^verbatim>\<open>model\<close> for a non-string), the timestamp and the random suffix, separated by colons;
  \<open>isPendingReplicateId\<close> accepts that output, and rejects every value that is not a string.
\<close>

theorem createPendingReplicateId_roundtrip:
  "createPendingReplicateId now r36 m
     = ''pending:'' @ safeName m @ '':'' @ decimal now @ '':'' @ randomToken r36
   \<and> safeName (JString s) = s
   \<and> (typeof m \<noteq> ''string'' \<longrightarrow> safeName m = ''model'')
   \<and> isPendingReplicateId (JString (createPendingReplicateId now r36 m))
   \<and> (typeof v \<noteq> ''string'' \<longrightarrow> \<not> isPendingReplicateId v)"
  by (cases m)
     (simp_all add: createPendingReplicateId_def safeName_def isPendingReplicateId_def startsWith_def)

theorem createPendingReplicateId_roundtrip_witness:
  "typeof JNull \<noteq> ''string'' \<and> typeof (JNumber 5) \<noteq> ''string''
   \<and> createPendingReplicateId 1700000000000 ''0.k3j9x2ab7f'' JNull
        = ''pending:model:1700000000000:k3j9x2ab''
   \<and> isPendingReplicateId (JString (createPendingReplicateId 1700000000000 ''0.k3j9x2ab7f'' JNull))
   \<and> \<not> isPendingReplicateId (JNumber 5)"
proof -
  note t = createPendingReplicateId_roundtrip
             [of 1700000000000 "''0.k3j9x2ab7f''" JNull "''x''" "JNumber 5"]
  have a: "typeof JNull \<noteq> ''string''" and b: "typeof (JNumber 5) \<noteq> ''string''"
    by simp_all
  from t a b pending_id_example show ?thesis by blast
qed

section \<open>Cancellation and polling\<close>

lemma findById_SomeD:
  "findById idOf coll rid = Inr (Some t) \<Longrightarrow> \<exists>n. rid = GoodId n \<and> find (\<lambda>d. idOf d = n) coll = Some t \<and> idOf t = n"
  by (cases rid) (auto simp: findById_def find_Some_iff)

lemma find_queued: "findById t_id exampleTrainings (GoodId 7) = Inr (Some queuedTraining)"
  by (simp add: findById_def exampleTrainings_def queuedTraining_def)

lemma find_processing: "findById t_id exampleTrainings (GoodId 8) = Inr (Some processingTraining)"
  by (simp add: findById_def exampleTrainings_def queuedTraining_def processingTraining_def)

lemma find_succeeded: "findById t_id exampleTrainings (GoodId 9) = Inr (Some succeededTraining)"
  by (simp add: findById_def exampleTrainings_def queuedTraining_def processingTraining_def succeededTraining_def)

lemma queued_pending: "isPendingReplicateId (replicateTrainingId queuedTraining)"
  by (simp add: queuedTraining_def isPendingReplicateId_def startsWith_def)

lemma processing_dispatched: "\<not> notDispatched processingTraining"
  by (simp add: notDispatched_def processingTraining_def queuedTraining_def isPendingReplicateId_def startsWith_def)

lemma succeeded_dispatched: "\<not> notDispatched succeededTraining"
  by (simp add: notDispatched_def succeededTraining_def queuedTraining_def isPendingReplicateId_def startsWith_def)

lemma succeeded_fields:
  "status succeededTraining = ''succeeded''" "t_id succeededTraining = 9"
  "replicateTrainingId succeededTraining = JString ''trn-xyz789''"
  by (simp_all add: succeededTraining_def queuedTraining_def)

lemma processing_fields:
  "status processingTraining = ''processing''" "t_id processingTraining = 8"
  "replicateTrainingId processingTraining = JString ''trn-abc123''"
  by (simp_all add: processingTraining_def queuedTraining_def)

lemma cancel_succeeded_statuses:
  "map status (findByIdAndUpdate exampleTrainings 9
               (\<lambda>d. d\<lparr>status := ''canceled'', completedAt := Some 99,
                       events := events d @ [canceledEvent succeededTraining 99]\<rparr>))
           = [''queued'', ''processing'', ''canceled'']"
  "map completedAt (findByIdAndUpdate exampleTrainings 9
               (\<lambda>d. d\<lparr>status := ''canceled'', completedAt := Some 99,
                       events := events d @ [canceledEvent succeededTraining 99]\<rparr>))
           = [None, None, Some 99]"
  by (simp_all add: exampleTrainings_def queuedTraining_def processingTraining_def
      succeededTraining_def)

text \<open>
  C1. The claim is that \<open>cancelTraining\<close> rejects, with an error and no state change, a record
  whose status is terminal. The handler does not: it has no status check. For a record that
  is \<^verbatim>\<open>succeeded\<close> (completed at time 20) and carries a real provider handle, a record for
  which the client's \<open>showCancel\<close> does not offer the action, the cancel request goes to the
  provider and, once acknowledged, the answer is 200 and the record is rewritten to
  \<^verbatim>\<open>canceled\<close> with a new \<open>completedAt\<close>.
\<close>

theorem cancelTraining_cancels_succeeded_record:
  "status succeededTraining = ''succeeded''
   \<and> terminal (status succeededTraining)
   \<and> \<not> showCancel succeededTraining
   \<and> completedAt succeededTraining = Some 20
   \<and> findById t_id (trainings exampleWorld) (GoodId 9) = Inr (Some succeededTraining)
   \<and> statusCode (fst (cancelTraining ackEnv (GoodId 9) exampleWorld)) = 200
   \<and> success (fst (cancelTraining ackEnv (GoodId 9) exampleWorld))
   \<and> message (fst (cancelTraining ackEnv (GoodId 9) exampleWorld))
        = Some ''Training canceled successfully''
   \<and> map status (trainings (snd (cancelTraining ackEnv (GoodId 9) exampleWorld)))
        = [''queued'', ''processing'', ''canceled'']
   \<and> map completedAt (trainings (snd (cancelTraining ackEnv (GoodId 9) exampleWorld)))
        = [None, None, Some 99]
   \<and> trace (snd (cancelTraining ackEnv (GoodId 9) exampleWorld))
        = [ReplicateTrainingsCancel (JString ''trn-xyz789''), BroadcastTraining 9]"
proof -
  have r: "cancelTraining ackEnv (GoodId 9) exampleWorld
      = (replyData 200 (Some ''Training canceled successfully'')
           (find (\<lambda>d. t_id d = 9) (findByIdAndUpdate exampleTrainings 9
               (\<lambda>d. d\<lparr>status := ''canceled'', completedAt := Some 99,
                       events := events d @ [canceledEvent succeededTraining 99]\<rparr>))),
         \<lparr>trainings = findByIdAndUpdate exampleTrainings 9
               (\<lambda>d. d\<lparr>status := ''canceled'', completedAt := Some 99,
                       events := events d @ [canceledEvent succeededTraining 99]\<rparr>),
          trace = [ReplicateTrainingsCancel (JString ''trn-xyz789''), BroadcastTraining 9]\<rparr>)"
    unfolding cancelTraining_def
    by (simp add: exampleWorld_def find_succeeded succeeded_dispatched succeeded_fields ackEnv_def
        Let_def emit_def broadcastTraining_def populateTrainingForClient_def)
  have f: "status succeededTraining = ''succeeded''" "completedAt succeededTraining = Some 20"
    by (simp_all add: succeededTraining_def queuedTraining_def)
  have w: "findById t_id (trainings exampleWorld) (GoodId 9) = Inr (Some succeededTraining)"
    by (simp add: exampleWorld_def find_succeeded)
  show ?thesis
    unfolding r
    by (simp add: f w cancel_succeeded_statuses replyData_def terminal_def showCancel_def)
qed

text \<open>
  C2, as stated, fails: for a record that is already \<^verbatim>\<open>succeeded\<close> and carries a real
  provider handle, \<open>checkTrainingStatus\<close> still consults the provider and passes the answer to
  \<open>processTrainingEvent\<close>.
\<close>

theorem checkTrainingStatus_terminal_counterexample:
  "terminal (status succeededTraining)
   \<and> findById t_id (trainings exampleWorld) (GoodId 9) = Inr (Some succeededTraining)
   \<and> trace (snd (checkTrainingStatus exampleStatusEnv (GoodId 9) exampleWorld))
        = [ReplicateTrainingsGet (JString ''trn-xyz789''),
           ProcessTrainingEvent 9 ''succeeded'' ''completed'']"
  unfolding checkTrainingStatus_def
  by (simp add: exampleWorld_def find_succeeded succeeded_dispatched succeeded_fields
      exampleStatusEnv_def Let_def emit_def eventTypeOf_def terminal_def)


lemma find_findByIdAndUpdate:
  "find (\<lambda>d. t_id d = n) coll = Some t \<Longrightarrow> t_id (f t) = n
   \<Longrightarrow> find (\<lambda>d. t_id d = n) (findByIdAndUpdate coll n f) = Some (f t)"
  by (induction coll) (auto split: if_splits)

text \<open>
  C3. For a record whose external handle is absent (falsy) or a placeholder, neither a
  status poll nor a cancellation reaches the provider: \<open>checkTrainingStatus\<close> answers 200 with
  the local record, \<open>cancelTraining\<close> answers 400, and both leave the collection and the
  trace of external effects as they were.
\<close>

theorem placeholder_never_reaches_provider:
  assumes "findById t_id (trainings w) rid = Inr (Some t)"
      and "\<not> truthy (replicateTrainingId t) \<or> isPendingReplicateId (replicateTrainingId t)"
  shows "checkTrainingStatus senv rid w = (replyData 200 None (Some t), w)
       \<and> cancelTraining cenv rid w
           = (reply 400 False ''Training has not been dispatched to Replicate yet.'', w)
       \<and> trace (snd (checkTrainingStatus senv rid w)) = trace w
       \<and> trace (snd (cancelTraining cenv rid w)) = trace w"
  using assms by (simp add: checkTrainingStatus_def cancelTraining_def notDispatched_def)

theorem placeholder_never_reaches_provider_witness:
  "findById t_id (trainings exampleWorld) (GoodId 7) = Inr (Some queuedTraining)
   \<and> isPendingReplicateId (replicateTrainingId queuedTraining)
   \<and> checkTrainingStatus exampleStatusEnv (GoodId 7) exampleWorld
         = (replyData 200 None (Some queuedTraining), exampleWorld)
   \<and> cancelTraining ackEnv (GoodId 7) exampleWorld
         = (reply 400 False ''Training has not been dispatched to Replicate yet.'', exampleWorld)
   \<and> trace (snd (checkTrainingStatus exampleStatusEnv (GoodId 7) exampleWorld)) = []
   \<and> trace (snd (cancelTraining ackEnv (GoodId 7) exampleWorld)) = []"
proof -
  have f: "findById t_id (trainings exampleWorld) (GoodId 7) = Inr (Some queuedTraining)"
    by (simp add: exampleWorld_def find_queued)
  have p: "\<not> truthy (replicateTrainingId queuedTraining)
           \<or> isPendingReplicateId (replicateTrainingId queuedTraining)"
    by (simp add: queued_pending)
  have e: "trace exampleWorld = []" by (simp add: exampleWorld_def)
  from placeholder_never_reaches_provider [OF f p, of exampleStatusEnv ackEnv] f queued_pending e
  show ?thesis by simp
qed

text \<open>
  C5. For a record with a real handle: when the provider acknowledges the cancel request,
  the record becomes \<^verbatim>\<open>canceled\<close>, its \<open>completedAt\<close> is set and an event of type
  \<^verbatim>\<open>canceled\<close> is appended to its log, the updated record is returned with a 200 answer,
  and the record is broadcast; when the provider rejects the request, the caller receives
  the provider's error in a 500 answer, the collection is unchanged, and the single cancel
  call is the only external effect: the request is not retried.
\<close>

theorem cancelTraining_outcome:
  assumes "findById t_id (trainings w) rid = Inr (Some t)"
      and "\<not> notDispatched t"
  shows "(trainingsCancel env (replicateTrainingId t) = None \<longrightarrow>
            find (\<lambda>d. t_id d = t_id t) (trainings (snd (cancelTraining env rid w)))
              = Some (t\<lparr>status := ''canceled'', completedAt := Some (cancelNow env),
                       events := events t @
                         [\<lparr>ev_type = ''canceled'', ev_message = ''Training canceled by user'',
                           ev_metadata = [(''replicateTrainingId'', replicateTrainingId t)],
                           ev_timestamp = cancelNow env\<rparr>]\<rparr>)
            \<and> fst (cancelTraining env rid w)
              = \<lparr>statusCode = 200, success = True,
                 message = Some ''Training canceled successfully'',
                 data = Some (t\<lparr>status := ''canceled'', completedAt := Some (cancelNow env),
                       events := events t @
                         [\<lparr>ev_type = ''canceled'', ev_message = ''Training canceled by user'',
                           ev_metadata = [(''replicateTrainingId'', replicateTrainingId t)],
                           ev_timestamp = cancelNow env\<rparr>]\<rparr>),
                 errorMessage = None\<rparr>
            \<and> trace (snd (cancelTraining env rid w))
              = trace w @ [ReplicateTrainingsCancel (replicateTrainingId t),
                           BroadcastTraining (t_id t)])
       \<and> (\<forall>e. trainingsCancel env (replicateTrainingId t) = Some e \<longrightarrow>
            fst (cancelTraining env rid w)
              = \<lparr>statusCode = 500, success = False, message = Some ''Failed to cancel training'',
                 data = None, errorMessage = Some e\<rparr>
            \<and> trainings (snd (cancelTraining env rid w)) = trainings w
            \<and> trace (snd (cancelTraining env rid w))
              = trace w @ [ReplicateTrainingsCancel (replicateTrainingId t)])"
proof -
  let ?h = "replicateTrainingId t"
  let ?ev = "\<lparr>ev_type = ''canceled'', ev_message = ''Training canceled by user'',
              ev_metadata = [(''replicateTrainingId'', replicateTrainingId t)],
              ev_timestamp = cancelNow env\<rparr>"
  let ?f = "\<lambda>d. d\<lparr>status := ''canceled'', completedAt := Some (cancelNow env),
                  events := events d @ [?ev]\<rparr>"
  from findById_SomeD [OF assms(1)] obtain n where rid: "rid = GoodId n"
    and fnd: "find (\<lambda>d. t_id d = n) (trainings w) = Some t" and idn: "t_id t = n"
    by (elim exE conjE)
  have upd: "find (\<lambda>d. t_id d = n) (findByIdAndUpdate (trainings w) n ?f) = Some (?f t)"
    by (rule find_findByIdAndUpdate [OF fnd]) (simp add: idn)
  have ack: "cancelTraining env rid w =
      (replyData 200 (Some ''Training canceled successfully'')
         (find (\<lambda>d. t_id d = n) (findByIdAndUpdate (trainings w) n ?f)),
       \<lparr>trainings = findByIdAndUpdate (trainings w) n ?f,
        trace = trace w @ [ReplicateTrainingsCancel ?h, BroadcastTraining n]\<rparr>)"
    if "trainingsCancel env ?h = None"
    using that assms unfolding cancelTraining_def
    by (simp add: Let_def emit_def broadcastTraining_def populateTrainingForClient_def idn
        canceledEvent_def)
  have rej: "cancelTraining env rid w =
      (replyError ''Failed to cancel training'' e, emit (ReplicateTrainingsCancel ?h) w)"
    if "trainingsCancel env ?h = Some e" for e
    using that assms unfolding cancelTraining_def by (simp add: Let_def)
  show ?thesis
  proof (intro conjI impI allI)
    assume a: "trainingsCancel env ?h = None"
    show "find (\<lambda>d. t_id d = t_id t) (trainings (snd (cancelTraining env rid w))) = Some (?f t)"
      unfolding ack [OF a] idn using upd by simp
    show "fst (cancelTraining env rid w)
            = \<lparr>statusCode = 200, success = True,
               message = Some ''Training canceled successfully'',
               data = Some (?f t), errorMessage = None\<rparr>"
      unfolding ack [OF a] using upd by (simp add: replyData_def)
    show "trace (snd (cancelTraining env rid w))
            = trace w @ [ReplicateTrainingsCancel ?h, BroadcastTraining (t_id t)]"
      unfolding ack [OF a] idn by simp
  next
    fix e assume a: "trainingsCancel env ?h = Some e"
    show "fst (cancelTraining env rid w)
            = \<lparr>statusCode = 500, success = False, message = Some ''Failed to cancel training'',
               data = None, errorMessage = Some e\<rparr>"
      unfolding rej [OF a] by (simp add: replyError_def)
    show "trainings (snd (cancelTraining env rid w)) = trainings w"
      unfolding rej [OF a] by (simp add: emit_def)
    show "trace (snd (cancelTraining env rid w)) = trace w @ [ReplicateTrainingsCancel ?h]"
      unfolding rej [OF a] by (simp add: emit_def)
  qed
qed

theorem cancelTraining_outcome_witness:
  "findById t_id (trainings exampleWorld) (GoodId 8) = Inr (Some processingTraining)
   \<and> \<not> notDispatched processingTraining
   \<and> trainingsCancel ackEnv (replicateTrainingId processingTraining) = None
   \<and> map_option (\<lambda>d. (status d, completedAt d, map ev_type (events d), map ev_timestamp (events d)))
        (find (\<lambda>d. t_id d = 8) (trainings (snd (cancelTraining ackEnv (GoodId 8) exampleWorld))))
        = Some (''canceled'', Some 99, [''canceled''], [99])
   \<and> statusCode (fst (cancelTraining ackEnv (GoodId 8) exampleWorld)) = 200
   \<and> trace (snd (cancelTraining ackEnv (GoodId 8) exampleWorld))
        = [ReplicateTrainingsCancel (JString ''trn-abc123''), BroadcastTraining 8]
   \<and> trainingsCancel rejectEnv (replicateTrainingId processingTraining)
        = Some ''Request failed with status 422''
   \<and> statusCode (fst (cancelTraining rejectEnv (GoodId 8) exampleWorld)) = 500
   \<and> errorMessage (fst (cancelTraining rejectEnv (GoodId 8) exampleWorld))
        = Some ''Request failed with status 422''
   \<and> trainings (snd (cancelTraining rejectEnv (GoodId 8) exampleWorld)) = trainings exampleWorld
   \<and> trace (snd (cancelTraining rejectEnv (GoodId 8) exampleWorld))
        = [ReplicateTrainingsCancel (JString ''trn-abc123'')]"
proof -
  have f8: "findById t_id (trainings exampleWorld) (GoodId 8) = Inr (Some processingTraining)"
    by (simp add: exampleWorld_def find_processing)
  have a: "trainingsCancel ackEnv (replicateTrainingId processingTraining) = None"
    and n: "cancelNow ackEnv = 99"
    by (simp_all add: ackEnv_def)
  have r: "trainingsCancel rejectEnv (replicateTrainingId processingTraining)
             = Some ''Request failed with status 422''"
    by (simp add: rejectEnv_def)
  have ev: "events processingTraining = []"
    by (simp add: processingTraining_def queuedTraining_def)
  have e: "trace exampleWorld = []" by (simp add: exampleWorld_def)
  from cancelTraining_outcome [OF f8 processing_dispatched, of ackEnv]
       cancelTraining_outcome [OF f8 processing_dispatched, of rejectEnv]
       f8 processing_dispatched a r n ev e
  show ?thesis by (simp add: processing_fields)
qed

lemma checkTrainingStatus_trace:
  "drop (length (trace w)) (trace (snd (checkTrainingStatus env rid w))) =
     (case findById t_id (trainings w) rid of
        Inr (Some t) \<Rightarrow>
          if notDispatched t then []
          else ReplicateTrainingsGet (replicateTrainingId t)
                 # (case trainingsGet env (replicateTrainingId t) of
                      Inl e \<Rightarrow> []
                    | Inr r \<Rightarrow> [ProcessTrainingEvent (t_id t) (rt_status r) (eventTypeOf r)])
      | _ \<Rightarrow> [])"
  by (simp add: checkTrainingStatus_def emit_def Let_def split: sum.splits option.splits)

text \<open>
  C2 (amended). \<open>checkTrainingStatus\<close> consults the provider if and only if the id names a
  record with a real (truthy, non-placeholder) handle, whatever the record's status. When
  the provider answers and \<open>processTrainingEvent\<close> returns, the answer has been applied
  through \<open>processTrainingEvent\<close> with event type \<^verbatim>\<open>completed\<close> exactly when the provider
  status is \<^verbatim>\<open>succeeded\<close>, \<^verbatim>\<open>failed\<close> or \<^verbatim>\<open>canceled\<close> (otherwise \<^verbatim>\<open>update\<close>), and the
  now-current record is returned.
\<close>

theorem checkTrainingStatus_poll:
  "((\<exists>h. ReplicateTrainingsGet h
          \<in> set (drop (length (trace w)) (trace (snd (checkTrainingStatus env rid w)))))
      = (\<exists>t. findById t_id (trainings w) rid = Inr (Some t) \<and> \<not> notDispatched t))
   \<and> (\<forall>t r coll.
         findById t_id (trainings w) rid = Inr (Some t) \<and> \<not> notDispatched t
         \<and> trainingsGet env (replicateTrainingId t) = Inr r
         \<and> processTrainingEvent env (t_id t) r (eventTypeOf r) (trainings w) = Inr coll
         \<longrightarrow> checkTrainingStatus env rid w
               = (replyData 200 None (find (\<lambda>d. t_id d = t_id t) coll),
                  \<lparr>trainings = coll,
                   trace = trace w @ [ReplicateTrainingsGet (replicateTrainingId t),
                             ProcessTrainingEvent (t_id t) (rt_status r) (eventTypeOf r)]\<rparr>))
   \<and> (\<forall>r. (eventTypeOf r = ''completed'')
            = (rt_status r = ''succeeded'' \<or> rt_status r = ''failed'' \<or> rt_status r = ''canceled''))
   \<and> (\<forall>r. eventTypeOf r = ''completed'' \<or> eventTypeOf r = ''update'')"
proof (intro conjI allI impI)
  show "(\<exists>h. ReplicateTrainingsGet h
          \<in> set (drop (length (trace w)) (trace (snd (checkTrainingStatus env rid w)))))
      = (\<exists>t. findById t_id (trainings w) rid = Inr (Some t) \<and> \<not> notDispatched t)"
  proof (cases "findById t_id (trainings w) rid")
    case (Inl e)
    then show ?thesis by (simp add: checkTrainingStatus_trace)
  next
    case (Inr found)
    show ?thesis
    proof (cases found)
      case None
      with Inr show ?thesis by (simp add: checkTrainingStatus_trace)
    next
      case (Some t)
      with Inr show ?thesis
        by (cases "trainingsGet env (replicateTrainingId t)")
           (simp_all add: checkTrainingStatus_trace)
    qed
  qed
next
  fix t r coll
  assume "findById t_id (trainings w) rid = Inr (Some t) \<and> \<not> notDispatched t
         \<and> trainingsGet env (replicateTrainingId t) = Inr r
         \<and> processTrainingEvent env (t_id t) r (eventTypeOf r) (trainings w) = Inr coll"
  then show "checkTrainingStatus env rid w
               = (replyData 200 None (find (\<lambda>d. t_id d = t_id t) coll),
                  \<lparr>trainings = coll,
                   trace = trace w @ [ReplicateTrainingsGet (replicateTrainingId t),
                             ProcessTrainingEvent (t_id t) (rt_status r) (eventTypeOf r)]\<rparr>)"
    unfolding checkTrainingStatus_def
    by (simp add: Let_def emit_def populateTrainingForClient_def)
next
  fix r show "(eventTypeOf r = ''completed'')
            = (rt_status r = ''succeeded'' \<or> rt_status r = ''failed'' \<or> rt_status r = ''canceled'')"
    by (simp add: eventTypeOf_def)
next
  fix r show "eventTypeOf r = ''completed'' \<or> eventTypeOf r = ''update''"
    by (simp add: eventTypeOf_def)
qed

theorem checkTrainingStatus_poll_witness:
  "findById t_id (trainings exampleWorld) (GoodId 8) = Inr (Some processingTraining)
   \<and> \<not> notDispatched processingTraining
   \<and> trainingsGet exampleStatusEnv (replicateTrainingId processingTraining)
         = Inr \<lparr>rt_id = ''trn'', rt_status = ''succeeded''\<rparr>
   \<and> checkTrainingStatus exampleStatusEnv (GoodId 8) exampleWorld
         = (replyData 200 None (Some processingTraining),
            \<lparr>trainings = exampleTrainings,
             trace = [ReplicateTrainingsGet (JString ''trn-abc123''),
                      ProcessTrainingEvent 8 ''succeeded'' ''completed'']\<rparr>)"
proof -
  let ?r = "\<lparr>rt_id = ''trn'', rt_status = ''succeeded''\<rparr>"
  have f8: "findById t_id (trainings exampleWorld) (GoodId 8) = Inr (Some processingTraining)"
    by (simp add: exampleWorld_def find_processing)
  have g: "trainingsGet exampleStatusEnv (replicateTrainingId processingTraining) = Inr ?r"
    by (simp add: exampleStatusEnv_def)
  have p: "processTrainingEvent exampleStatusEnv (t_id processingTraining) ?r (eventTypeOf ?r)
             (trainings exampleWorld) = Inr exampleTrainings"
    by (simp add: exampleStatusEnv_def exampleWorld_def)
  have fnd: "find (\<lambda>d. t_id d = 8) exampleTrainings = Some processingTraining"
    using find_processing by (simp add: findById_def)
  have e: "trace exampleWorld = []" by (simp add: exampleWorld_def)
  have ty: "eventTypeOf ?r = ''completed''" by (simp add: eventTypeOf_def)
  from checkTrainingStatus_poll [of exampleWorld exampleStatusEnv "GoodId 8"]
  have "checkTrainingStatus exampleStatusEnv (GoodId 8) exampleWorld
               = (replyData 200 None (find (\<lambda>d. t_id d = t_id processingTraining) exampleTrainings),
                  \<lparr>trainings = exampleTrainings,
                   trace = trace exampleWorld @ [ReplicateTrainingsGet (replicateTrainingId processingTraining),
                             ProcessTrainingEvent (t_id processingTraining) (rt_status ?r) (eventTypeOf ?r)]\<rparr>)"
    using f8 processing_dispatched g p by blast
  then show ?thesis
    using f8 processing_dispatched g by (simp add: processing_fields fnd e ty)
qed

section \<open>Starting a training\<close>

lemma emit_simps [simp]:
  "trainings (emit e w) = trainings w" "trace (emit e w) = trace w @ [e]"
  "trainings (emitAll es w) = trainings w" "trace (emitAll es w) = trace w @ es"
  "trainings (broadcastTraining n w) = trainings w"
  "trace (broadcastTraining n w) = trace w @ [BroadcastTraining n]"
  by (simp_all add: emit_def emitAll_def broadcastTraining_def)

lemma prepareDataset_world:
  assumes "prepareDataset env n sa w = (out, l, w')"
  shows "trainings w' = trainings w \<and> (\<exists>es. trace w' = trace w @ es \<and> list_all preEffect es)"
  using assms unfolding prepareDataset_def Let_def
  by (auto split: option.splits sum.splits simp: list_all_iff)

lemma createDestination_world:
  assumes "createDestination env n w = (out, w')"
  shows "trainings w' = trainings w \<and> (\<exists>es. trace w' = trace w @ es \<and> list_all preEffect es)"
  using assms unfolding createDestination_def Let_def
  by (auto split: option.splits if_splits)

lemma prepareStart_world:
  assumes "prepareStart env req w = (out, l, w')"
  shows "trainings w' = trainings w \<and> (\<exists>es. trace w' = trace w @ es \<and> list_all preEffect es)"
proof (cases "collectSourceAssets env req")
  case (Value v)
  obtain user sa ids where v: "v = (user, sa, ids)" by (cases v)
  obtain o1 l1 w1 where pd: "prepareDataset env (uniqueModelName env req user) sa w = (o1, l1, w1)"
    by (cases "prepareDataset env (uniqueModelName env req user) sa w")
  from prepareDataset_world [OF pd] obtain es1 where
    w1: "trainings w1 = trainings w" "trace w1 = trace w @ es1" "list_all preEffect es1" by blast
  show ?thesis
  proof (cases o1)
    case (Value zipUrl)
    obtain o2 w2 where cd: "createDestination env (uniqueModelName env req user) w1 = (o2, w2)"
      by (cases "createDestination env (uniqueModelName env req user) w1")
    from createDestination_world [OF cd] obtain es2 where
      w2: "trainings w2 = trainings w1" "trace w2 = trace w1 @ es2" "list_all preEffect es2" by blast
    have "w' = w2"
      using assms \<open>collectSourceAssets env req = Value v\<close> v pd Value cd
      unfolding prepareStart_def Let_def by (cases o2) (simp_all split: prod.splits)
    with w1 w2 show ?thesis by simp
  next
    case (Respond r)
    with assms \<open>collectSourceAssets env req = Value v\<close> v pd have "w' = w1"
      unfolding prepareStart_def Let_def by simp
    with w1 show ?thesis by blast
  next
    case (Throw e)
    with assms \<open>collectSourceAssets env req = Value v\<close> v pd have "w' = w1"
      unfolding prepareStart_def Let_def by simp
    with w1 show ?thesis by blast
  qed
next
  case (Respond r)
  with assms have "w' = w" unfolding prepareStart_def Let_def by simp
  then show ?thesis by simp
next
  case (Throw e)
  with assms have "w' = w" unfolding prepareStart_def Let_def by simp
  then show ?thesis by simp
qed

lemma prepareStart_created:
  assumes "prepareStart env req w = (Value (created, args), l, w')"
  shows "\<exists>uid n assets cfg. created = newTraining env uid n assets cfg"
  using assms unfolding prepareStart_def Let_def
  by (auto split: outcome.splits prod.splits)

lemma collectSourceAssets_respond:
  assumes "collectSourceAssets env req = Respond r"
  shows "\<not> success r \<and> (statusCode r = 404 \<or> statusCode r = 400)"
  using assms unfolding collectSourceAssets_def gatherImages_def Let_def
  by (auto simp: reply_def split: sum.splits option.splits outcome.splits if_splits)

lemma prepareDataset_no_respond: "prepareDataset env n sa w \<noteq> (Respond r, l, w')"
  unfolding prepareDataset_def Let_def
  by (auto split: option.splits sum.splits)

lemma createDestination_no_respond: "createDestination env n w \<noteq> (Respond r, w')"
  unfolding createDestination_def Let_def
  by (auto split: option.splits)

lemma prepareStart_respond:
  assumes "prepareStart env req w = (Respond r, l, w')"
  shows "collectSourceAssets env req = Respond r \<and> w' = w"
proof (cases "collectSourceAssets env req")
  case (Value v)
  obtain user sa ids where v: "v = (user, sa, ids)" by (cases v)
  obtain o1 l1 w1 where pd: "prepareDataset env (uniqueModelName env req user) sa w = (o1, l1, w1)"
    by (cases "prepareDataset env (uniqueModelName env req user) sa w")
  obtain o2 w2 where cd: "createDestination env (uniqueModelName env req user) w1 = (o2, w2)"
    by (cases "createDestination env (uniqueModelName env req user) w1")
  have "o1 \<noteq> Respond r" for r using pd prepareDataset_no_respond by metis
  moreover have "o2 \<noteq> Respond r" for r using cd createDestination_no_respond by metis
  ultimately have False
    using assms Value v pd cd unfolding prepareStart_def Let_def
    by (cases o1; cases o2) (simp_all split: prod.splits)
  then show ?thesis ..
next
  case (Respond r')
  with assms show ?thesis unfolding prepareStart_def Let_def by simp
next
  case (Throw e)
  with assms show ?thesis unfolding prepareStart_def Let_def by simp
qed

lemma createAndDispatch_trace:
  assumes "createAndDispatch env c a w = (out, w')"
  shows "\<exists>post. trace w' = trace w @ [TrainingCreate c, BroadcastTraining (t_id c), DispatchTraining (t_id c)] @ post
           \<and> list_all postEffect post
           \<and> (case out of Value r \<Rightarrow> statusCode r = 202 | Respond r \<Rightarrow> False | Throw e \<Rightarrow> True)"
proof (cases "dispatchTraining env (t_id c) a (trainings w @ [c])")
  case (Pair res coll)
  show ?thesis
  proof (cases res)
    case None
    with Pair assms show ?thesis
      unfolding createAndDispatch_def Let_def by (auto simp: replyData_def)
  next
    case (Some e)
    with Pair assms show ?thesis
      unfolding createAndDispatch_def Let_def by auto
  qed
qed

lemma cleanupAfterError_world:
  "trainings (cleanupAfterError l w) = trainings w
   \<and> (\<exists>ds. trace (cleanupAfterError l w) = trace w @ ds \<and> list_all postEffect ds)"
  unfolding cleanupAfterError_def Let_def
  by (auto split: option.splits simp: list_all_iff)

lemma preEffect_not_create: "list_all preEffect es \<Longrightarrow> TrainingCreate t \<notin> set es"
  by (auto simp: list_all_iff)

lemma postEffect_not_create: "list_all postEffect es \<Longrightarrow> TrainingCreate t \<notin> set es"
  by (auto simp: list_all_iff)

lemma newTraining_fields:
  "status (newTraining env uid n assets cfg) = ''queued''"
  "progress (newTraining env uid n assets cfg) = 0"
  "attempts (newTraining env uid n assets cfg) = 0"
  "isPendingReplicateId (replicateTrainingId (newTraining env uid n assets cfg))"
  "map ev_type (events (newTraining env uid n assets cfg)) = [''created'']"
  by (simp_all add: newTraining_def isPendingReplicateId_def createPendingReplicateId_def
      startsWith_def createdEvent_def)

text \<open>The shape of every run of \<open>startTraining\<close>.\<close>

lemma startTraining_shape:
  "(\<exists>es. snd (startTraining env req w) = w\<lparr>trace := trace w @ es\<rparr>
         \<and> (\<forall>t. TrainingCreate t \<notin> set es) \<and> statusCode (fst (startTraining env req w)) \<noteq> 202)
   \<or> (\<exists>created args l w1 pre post.
         prepareStart env req w = (Value (created, args), l, w1)
         \<and> trace (snd (startTraining env req w))
             = trace w @ pre @ [TrainingCreate created, BroadcastTraining (t_id created),
                               DispatchTraining (t_id created)] @ post
         \<and> list_all preEffect pre \<and> list_all postEffect post)"
proof -
  obtain o1 l w1 where ps: "prepareStart env req w = (o1, l, w1)"
    by (cases "prepareStart env req w")
  from prepareStart_world [OF ps] obtain es where
    w1: "trainings w1 = trainings w" "trace w1 = trace w @ es" "list_all preEffect es" by blast
  have w1eq: "w1 = w\<lparr>trace := trace w @ es\<rparr>" using w1 by (cases w; cases w1) simp
  show ?thesis
  proof (cases o1)
    case (Value v)
    obtain created args where v: "v = (created, args)" by (cases v)
    obtain out w2 where cd: "createAndDispatch env created args w1 = (out, w2)"
      by (cases "createAndDispatch env created args w1")
    from createAndDispatch_trace [OF cd] obtain post where
      w2: "trace w2 = trace w1 @ [TrainingCreate created, BroadcastTraining (t_id created),
                               DispatchTraining (t_id created)] @ post"
      and post: "list_all postEffect post"
      and out: "(case out of Value r \<Rightarrow> statusCode r = 202 | Respond r \<Rightarrow> False | Throw e \<Rightarrow> True)"
      by blast
    have tr: "tryStartTraining env req w = (out, l, w2)"
      unfolding tryStartTraining_def using ps Value v cd by simp
    show ?thesis
    proof (cases out)
      case (Value r)
      then have "snd (startTraining env req w) = w2"
        unfolding startTraining_def using tr by simp
      with w2 w1 post ps \<open>o1 = Value v\<close> v show ?thesis by auto
    next
      case (Respond r)
      with out show ?thesis by simp
    next
      case (Throw e)
      then have s: "snd (startTraining env req w) = cleanupAfterError l w2"
        unfolding startTraining_def using tr by simp
      from cleanupAfterError_world [of l w2] obtain ds where
        ds: "trace (cleanupAfterError l w2) = trace w2 @ ds" "list_all postEffect ds" by blast
      have "trace (snd (startTraining env req w))
             = trace w @ es @ [TrainingCreate created, BroadcastTraining (t_id created),
                               DispatchTraining (t_id created)] @ (post @ ds)"
        using s ds w2 w1 by simp
      moreover have "list_all postEffect (post @ ds)" using post ds by simp
      ultimately show ?thesis using w1 ps \<open>o1 = Value v\<close> v by blast
    qed
  next
    case (Respond r)
    from prepareStart_respond [OF ps [unfolded Respond]]
    have c: "collectSourceAssets env req = Respond r" and "w1 = w" by simp_all
    have "startTraining env req w = (r, w)"
      unfolding startTraining_def tryStartTraining_def using ps Respond \<open>w1 = w\<close> by simp
    moreover have "statusCode r \<noteq> 202" using collectSourceAssets_respond [OF c] by auto
    ultimately have "snd (startTraining env req w) = w\<lparr>trace := trace w @ []\<rparr>
         \<and> (\<forall>t. TrainingCreate t \<notin> set []) \<and> statusCode (fst (startTraining env req w)) \<noteq> 202"
      by simp
    then show ?thesis by blast
  next
    case (Throw e)
    have st: "startTraining env req w = (replyError ''Failed to start training'' e, cleanupAfterError l w1)"
      unfolding startTraining_def tryStartTraining_def using ps Throw by simp
    from cleanupAfterError_world [of l w1] obtain ds where
      ds: "trainings (cleanupAfterError l w1) = trainings w1"
          "trace (cleanupAfterError l w1) = trace w1 @ ds" "list_all postEffect ds" by blast
    have "snd (startTraining env req w) = w\<lparr>trace := trace w @ (es @ ds)\<rparr>"
      using st ds w1 by (cases w; cases "cleanupAfterError l w1") simp
    moreover have "\<forall>t. TrainingCreate t \<notin> set (es @ ds)"
      using preEffect_not_create [OF w1(3)] postEffect_not_create [OF ds(3)] by simp
    moreover have "statusCode (fst (startTraining env req w)) \<noteq> 202"
      using st by (simp add: replyError_def)
    ultimately show ?thesis by blast
  qed
qed

lemma example_user: "findById u_id (users (startEnvWith d)) (GoodId 3) = Inr (Some exampleUser)"
  by (simp add: findById_def startEnvWith_def exampleUser_def)

lemma example_incoming: "incomingFiles exampleRequest = [exampleFile]"
  by (simp add: incomingFiles_def exampleRequest_def)

lemma example_userId: "body_userId exampleRequest = GoodId 3"
  by (simp add: exampleRequest_def)

lemma example_fileSource: "fileSource (startEnvWith d) (exampleFile, 0) = exampleSource"
  by (simp add: fileSource_def exampleFile_def orElse_def exampleSource_def)

lemma example_collect:
  "collectSourceAssets (startEnvWith d) exampleRequest = Value (exampleUser, [exampleSource], [])"
  unfolding collectSourceAssets_def gatherImages_def Let_def
  by (simp add: example_user example_incoming example_userId enumerate_from0_def example_fileSource)

lemma example_name: "uniqueModelName (startEnvWith d) exampleRequest exampleUser = ''alice-1700000000000''"
  by (simp add: uniqueModelName_def baseModelName_def exampleRequest_def orElse_def replaceUnsafe_def
      startEnvWith_def decimal_example exampleUser_def)

lemma example_base: "baseModelName exampleRequest exampleUser = ''alice''"
  by (simp add: baseModelName_def exampleRequest_def orElse_def replaceUnsafe_def)

lemma example_upload:
  "uploadOne (startEnvWith d) ''alice-1700000000000'' (exampleSource, 0) = (''img/a.png'', Inr exampleUploaded)"
  by (simp add: uploadOne_def archiveName_def orElse_def exampleSource_def startEnvWith_def
      exampleUploaded_def Let_def)

lemma example_dataset:
  "prepareDataset (startEnvWith d) ''alice-1700000000000'' [exampleSource] exampleWorld
     = (Value (''zip/alice-1700000000000'', ''https://s3/zip/alice-1700000000000''),
        exampleLocals, preparedWorld)"
proof -
  have u: "map (uploadOne (startEnvWith d) ''alice-1700000000000'') (enumerate_from0 [exampleSource])
             = [(''img/a.png'', Inr exampleUploaded)]"
    by (simp add: enumerate_from0_def example_upload)
  have e: "ensureDir (startEnvWith d) p = None" "fsRemove (startEnvWith d) p = None"
          "archiveFinalize (startEnvWith d) p es = None" "readFile (startEnvWith d) p = Inr [80, 75]"
          "tmpdir (startEnvWith d) = ''/tmp''"
          "generateTrainingZipKey (startEnvWith d) n = ''zip/'' @ n"
          "uploadBufferToS3 (startEnvWith d) b k c = Inr (''https://s3/'' @ k)" for p es n b k c
    by (simp_all add: startEnvWith_def)
  show ?thesis
    unfolding prepareDataset_def Let_def u
    by (simp add: e exampleLocals_def preparedWorld_def exampleWorld_def emit_def emitAll_def)
qed

lemma example_destination:
  "createDestination (startEnvWith d) n w = (Value None, w)"
  by (simp add: createDestination_def startEnvWith_def present_def)

lemma example_prepare:
  "prepareStart (startEnvWith d) exampleRequest exampleWorld
     = (Value (exampleCreated (startEnvWith d), replicateArgsFor exampleInput None),
        exampleLocals, preparedWorld)"
proof -
  have f: "body_trainingConfig exampleRequest = None" "u_id exampleUser = 3"
          "uploadedAssets exampleLocals = [exampleUploaded]"
          "generatedZipKey exampleLocals = Some ''zip/alice-1700000000000''"
    by (simp_all add: exampleRequest_def exampleUser_def exampleLocals_def)
  show ?thesis
    unfolding prepareStart_def Let_def
    by (simp add: example_collect example_name example_dataset example_destination example_base
        example_incoming exampleCreated_def exampleInput_def f)
qed

text \<open>
  C7. A "start job" request whose owner reference names no user, or for which no training
  images are available (no uploaded files and no stored user assets, or none of the stored
  assets could be loaded), is answered at once with an error response (404 or 400), and
  nothing has happened by then: the collection and the trace of external effects are
  unchanged, so no Job Record exists for it.
\<close>

theorem validation_rejected_before_create:
  "(findById u_id (users env) (body_userId req) = Inr None \<longrightarrow>
      startTraining env req w = (reply 404 False ''User not found'', w))
   \<and> (\<forall>user. findById u_id (users env) (body_userId req) = Inr (Some user)
          \<and> incomingFiles req = []
          \<and> (u_imageAssets user = None \<or> u_imageAssets user = Some []) \<longrightarrow>
          startTraining env req w
            = (reply 400 False
                 ''Selected user has no uploaded images. Add reference photos before starting training.'',
               w))
   \<and> (\<forall>r. collectSourceAssets env req = Respond r \<longrightarrow>
          startTraining env req w = (r, w) \<and> \<not> success r
          \<and> (statusCode r = 404 \<or> statusCode r = 400))"
proof (intro conjI allI impI)
  assume "findById u_id (users env) (body_userId req) = Inr None"
  then show "startTraining env req w = (reply 404 False ''User not found'', w)"
    by (simp add: startTraining_def tryStartTraining_def prepareStart_def collectSourceAssets_def)
next
  fix user
  assume a: "findById u_id (users env) (body_userId req) = Inr (Some user)
          \<and> incomingFiles req = []
          \<and> (u_imageAssets user = None \<or> u_imageAssets user = Some [])"
  then have "gatherImages env req user = Respond (reply 400 False
       ''Selected user has no uploaded images. Add reference photos before starting training.'')"
    by (auto simp: gatherImages_def)
  with a show "startTraining env req w
            = (reply 400 False
                 ''Selected user has no uploaded images. Add reference photos before starting training.'',
               w)"
    by (simp add: startTraining_def tryStartTraining_def prepareStart_def collectSourceAssets_def)
next
  fix r
  assume c: "collectSourceAssets env req = Respond r"
  then show "startTraining env req w = (r, w)"
    by (simp add: startTraining_def tryStartTraining_def prepareStart_def)
  from collectSourceAssets_respond [OF c]
  show "\<not> success r" and "statusCode r = 404 \<or> statusCode r = 400" by simp_all
qed

theorem validation_rejected_before_create_witness:
  "findById u_id (users exampleStartEnv) (body_userId unknownUserRequest) = Inr None
   \<and> startTraining exampleStartEnv unknownUserRequest exampleWorld
        = (reply 404 False ''User not found'', exampleWorld)
   \<and> findById u_id (users exampleStartEnv) (body_userId noImagesRequest) = Inr (Some exampleUser)
   \<and> incomingFiles noImagesRequest = [] \<and> u_imageAssets exampleUser = Some []
   \<and> startTraining exampleStartEnv noImagesRequest exampleWorld
        = (reply 400 False
             ''Selected user has no uploaded images. Add reference photos before starting training.'',
           exampleWorld)
   \<and> collectSourceAssets exampleStartEnv unknownUserRequest = Respond (reply 404 False ''User not found'')
   \<and> \<not> success (reply 404 False ''User not found'')"
proof -
  have u4: "findById u_id (users exampleStartEnv) (body_userId unknownUserRequest) = Inr None"
    by (simp add: findById_def exampleStartEnv_def startEnvWith_def unknownUserRequest_def
        exampleRequest_def exampleUser_def)
  have u3: "findById u_id (users exampleStartEnv) (body_userId noImagesRequest) = Inr (Some exampleUser)"
    by (simp add: noImagesRequest_def exampleRequest_def exampleStartEnv_def example_user)
  have nf: "incomingFiles noImagesRequest = []"
    by (simp add: incomingFiles_def noImagesRequest_def)
  have na: "u_imageAssets exampleUser = Some []"
    by (simp add: exampleUser_def)
  have c: "collectSourceAssets exampleStartEnv unknownUserRequest = Respond (reply 404 False ''User not found'')"
    by (simp add: collectSourceAssets_def u4)
  note t1 = validation_rejected_before_create [of exampleStartEnv unknownUserRequest exampleWorld]
  note t2 = validation_rejected_before_create [of exampleStartEnv noImagesRequest exampleWorld]
  from t1 u4 have r1: "startTraining exampleStartEnv unknownUserRequest exampleWorld
        = (reply 404 False ''User not found'', exampleWorld)" by blast
  from t2 u3 nf na have r2: "startTraining exampleStartEnv noImagesRequest exampleWorld
        = (reply 400 False
             ''Selected user has no uploaded images. Add reference photos before starting training.'',
           exampleWorld)" by blast
  from t1 c have r3: "\<not> success (reply 404 False ''User not found'')" by blast
  from u4 u3 nf na c r1 r2 r3 show ?thesis by simp
qed

text \<open>
  C6. A request answered with 202 has created a record, and every record \<open>startTraining\<close>
  creates is created with status \<^verbatim>\<open>queued\<close>, progress 0, attempts 0, a placeholder external
  handle and an event log holding exactly one event, of type \<^verbatim>\<open>created\<close>; the creation is
  followed at once by the broadcast of the record and only then by the dispatch call.
\<close>

theorem created_record_queued_and_broadcast_first:
  "(statusCode (fst (startTraining env req w)) = 202 \<longrightarrow>
      (\<exists>t. TrainingCreate t \<in> set (drop (length (trace w)) (trace (snd (startTraining env req w))))))
   \<and> (\<forall>t. TrainingCreate t \<in> set (drop (length (trace w)) (trace (snd (startTraining env req w)))) \<longrightarrow>
          status t = ''queued'' \<and> progress t = 0 \<and> attempts t = 0
          \<and> isPendingReplicateId (replicateTrainingId t)
          \<and> map ev_type (events t) = [''created'']
          \<and> (\<exists>pre post.
                trace (snd (startTraining env req w))
                  = trace w @ pre @ [TrainingCreate t, BroadcastTraining (t_id t),
                                     DispatchTraining (t_id t)] @ post
                \<and> list_all preEffect pre \<and> list_all postEffect post))"
proof -
  let ?new = "drop (length (trace w)) (trace (snd (startTraining env req w)))"
  from startTraining_shape [of env req w]
  consider
    (plain) es where "snd (startTraining env req w) = w\<lparr>trace := trace w @ es\<rparr>"
         "\<forall>t. TrainingCreate t \<notin> set es" "statusCode (fst (startTraining env req w)) \<noteq> 202"
  | (made) created args l w1 pre post where
         "prepareStart env req w = (Value (created, args), l, w1)"
         "trace (snd (startTraining env req w))
             = trace w @ pre @ [TrainingCreate created, BroadcastTraining (t_id created),
                               DispatchTraining (t_id created)] @ post"
         "list_all preEffect pre" "list_all postEffect post"
    by blast
  then show ?thesis
  proof cases
    case plain
    then have "?new = es" by simp
    with plain show ?thesis by simp
  next
    case made
    have new: "?new = pre @ [TrainingCreate created, BroadcastTraining (t_id created),
                               DispatchTraining (t_id created)] @ post"
      using made(2) by simp
    have only: "t = created" if "TrainingCreate t \<in> set ?new" for t
      using that preEffect_not_create [OF made(3), of t] postEffect_not_create [OF made(4), of t]
      unfolding new by auto
    from prepareStart_created [OF made(1)] obtain uid n assets cfg where
      c: "created = newTraining env uid n assets cfg" by blast
    have fields: "status created = ''queued'' \<and> progress created = 0 \<and> attempts created = 0
          \<and> isPendingReplicateId (replicateTrainingId created)
          \<and> map ev_type (events created) = [''created'']"
      unfolding c by (simp add: newTraining_fields)
    have ex: "\<exists>t. TrainingCreate t \<in> set ?new" unfolding new by auto
    show ?thesis
    proof (intro conjI allI impI)
      show "\<exists>t. TrainingCreate t \<in> set ?new" by (rule ex)
    next
      fix t assume "TrainingCreate t \<in> set ?new"
      then have t: "t = created" by (rule only)
      show "status t = ''queued''" "progress t = 0" "attempts t = 0"
           "isPendingReplicateId (replicateTrainingId t)" "map ev_type (events t) = [''created'']"
        using fields unfolding t by simp_all
      show "\<exists>pre post.
                trace (snd (startTraining env req w))
                  = trace w @ pre @ [TrainingCreate t, BroadcastTraining (t_id t),
                                     DispatchTraining (t_id t)] @ post
                \<and> list_all preEffect pre \<and> list_all postEffect post"
        unfolding t using made(2,3,4) by blast
    qed
  qed
qed

lemma example_created_id: "t_id (exampleCreated (startEnvWith d)) = 10"
  by (simp add: exampleCreated_def newTraining_def startEnvWith_def)

lemma example_find_created:
  "find (\<lambda>x. t_id x = 10) (exampleTrainings @ [exampleCreated (startEnvWith d)])
     = Some (exampleCreated (startEnvWith d))"
  by (simp add: exampleTrainings_def queuedTraining_def processingTraining_def succeededTraining_def
      example_created_id)

lemma example_start:
  "startTraining exampleStartEnv exampleRequest exampleWorld
     = (replyData 202 (Some ''Training started successfully'') (Some (exampleCreated exampleStartEnv)),
        \<lparr>trainings = exampleTrainings @ [exampleCreated exampleStartEnv],
         trace = [UploadBufferToS3 ''img/a.png'', UploadBufferToS3 ''zip/alice-1700000000000'',
                  TrainingCreate (exampleCreated exampleStartEnv), BroadcastTraining 10,
                  DispatchTraining 10]\<rparr>)"
proof -
  have d: "dispatchTraining exampleStartEnv n a coll = (None, coll)" for n a coll
    by (simp add: exampleStartEnv_def startEnvWith_def)
  have p: "prepareStart exampleStartEnv exampleRequest exampleWorld
     = (Value (exampleCreated exampleStartEnv, replicateArgsFor exampleInput None),
        exampleLocals, preparedWorld)"
    unfolding exampleStartEnv_def by (rule example_prepare)
  have i: "t_id (exampleCreated exampleStartEnv) = 10"
    unfolding exampleStartEnv_def by (rule example_created_id)
  have f: "find (\<lambda>x. t_id x = 10) (exampleTrainings @ [exampleCreated exampleStartEnv])
     = Some (exampleCreated exampleStartEnv)"
    unfolding exampleStartEnv_def by (rule example_find_created)
  show ?thesis
    unfolding startTraining_def tryStartTraining_def p createAndDispatch_def Let_def
    by (simp add: d i f populateTrainingForClient_def preparedWorld_def emit_def broadcastTraining_def)
qed

theorem created_record_queued_and_broadcast_first_witness:
  "statusCode (fst (startTraining exampleStartEnv exampleRequest exampleWorld)) = 202
   \<and> TrainingCreate (exampleCreated exampleStartEnv)
        \<in> set (drop (length (trace exampleWorld))
                 (trace (snd (startTraining exampleStartEnv exampleRequest exampleWorld))))
   \<and> status (exampleCreated exampleStartEnv) = ''queued''
   \<and> progress (exampleCreated exampleStartEnv) = 0
   \<and> attempts (exampleCreated exampleStartEnv) = 0
   \<and> isPendingReplicateId (replicateTrainingId (exampleCreated exampleStartEnv))
   \<and> map ev_type (events (exampleCreated exampleStartEnv)) = [''created'']
   \<and> trace (snd (startTraining exampleStartEnv exampleRequest exampleWorld))
        = [UploadBufferToS3 ''img/a.png'', UploadBufferToS3 ''zip/alice-1700000000000'',
           TrainingCreate (exampleCreated exampleStartEnv), BroadcastTraining 10, DispatchTraining 10]"
proof -
  have s: "statusCode (fst (startTraining exampleStartEnv exampleRequest exampleWorld)) = 202"
    by (simp add: example_start replyData_def)
  have m: "TrainingCreate (exampleCreated exampleStartEnv)
        \<in> set (drop (length (trace exampleWorld))
                 (trace (snd (startTraining exampleStartEnv exampleRequest exampleWorld))))"
  proof -
    have e: "length (trace exampleWorld) = 0" by (simp add: exampleWorld_def)
    show ?thesis unfolding e example_start by simp
  qed
  have tr: "trace (snd (startTraining exampleStartEnv exampleRequest exampleWorld))
        = [UploadBufferToS3 ''img/a.png'', UploadBufferToS3 ''zip/alice-1700000000000'',
           TrainingCreate (exampleCreated exampleStartEnv), BroadcastTraining 10, DispatchTraining 10]"
    by (simp add: example_start)
  from created_record_queued_and_broadcast_first [of exampleStartEnv exampleRequest exampleWorld] m
  have "status (exampleCreated exampleStartEnv) = ''queued''
      \<and> progress (exampleCreated exampleStartEnv) = 0
      \<and> attempts (exampleCreated exampleStartEnv) = 0
      \<and> isPendingReplicateId (replicateTrainingId (exampleCreated exampleStartEnv))
      \<and> map ev_type (events (exampleCreated exampleStartEnv)) = [''created'']"
    by blast
  with s m tr show ?thesis by blast
qed

text \<open>
  C4. When the request reaches the dispatch and \<open>dispatchTraining\<close> throws (leaving the
  record in the collection), the record is not dropped: it is left with status
  \<^verbatim>\<open>failed\<close>, its error set to the dispatch error message, \<open>completedAt\<close> set and an
  \<^verbatim>\<open>error\<close> event appended to its log; the record is broadcast again, and only then does
  the caller receive the failure (a 500 response carrying the message).
\<close>

theorem dispatch_failure_marks_record_failed:
  assumes "prepareStart env req w = (Value (created, args), l, w1)"
      and "dispatchTraining env (t_id created) args (trainings w1 @ [created]) = (Some msg, coll)"
      and "find (\<lambda>d. t_id d = t_id created) coll = Some d"
  shows "fst (startTraining env req w) = replyError ''Failed to start training'' msg
       \<and> find (\<lambda>d. t_id d = t_id created) (trainings (snd (startTraining env req w)))
           = Some (d\<lparr>status := ''failed'', error := Some msg, completedAt := Some (failureTime env),
                     events := events d @ [dispatchErrorEvent msg (failureTime env)]\<rparr>)
       \<and> (\<exists>pre post.
             trace (snd (startTraining env req w))
               = trace w @ pre @ [TrainingCreate created, BroadcastTraining (t_id created),
                                  DispatchTraining (t_id created), BroadcastTraining (t_id created)] @ post
             \<and> list_all preEffect pre \<and> list_all postEffect post)"
proof -
  let ?f = "\<lambda>d. d\<lparr>status := ''failed'', error := Some msg, completedAt := Some (failureTime env),
                  events := events d @ [dispatchErrorEvent msg (failureTime env)]\<rparr>"
  let ?id = "t_id created"
  let ?w5 = "\<lparr>trainings = findByIdAndUpdate coll ?id ?f,
             trace = trace w1 @ [TrainingCreate created, BroadcastTraining ?id,
                                 DispatchTraining ?id, BroadcastTraining ?id]\<rparr>"
  from prepareStart_world [OF assms(1)] obtain pre where
    w1: "trainings w1 = trainings w" "trace w1 = trace w @ pre" "list_all preEffect pre" by blast
  have cd: "createAndDispatch env created args w1 = (Throw msg, ?w5)"
    unfolding createAndDispatch_def Let_def using assms(2)
    by (simp add: emit_def broadcastTraining_def)
  have st: "startTraining env req w
              = (replyError ''Failed to start training'' msg, cleanupAfterError l ?w5)"
    unfolding startTraining_def tryStartTraining_def assms(1) by (simp add: cd)
  from cleanupAfterError_world [of l ?w5] obtain post where
    cl: "trainings (cleanupAfterError l ?w5) = findByIdAndUpdate coll ?id ?f"
        "trace (cleanupAfterError l ?w5) = trace ?w5 @ post" "list_all postEffect post"
    by auto
  have upd: "find (\<lambda>d. t_id d = ?id) (findByIdAndUpdate coll ?id ?f) = Some (?f d)"
  proof (rule find_findByIdAndUpdate [OF assms(3)])
    from assms(3) have "t_id d = ?id" by (auto simp: find_Some_iff)
    then show "t_id (?f d) = ?id" by simp
  qed
  have tr: "trace (snd (startTraining env req w))
               = trace w @ pre @ [TrainingCreate created, BroadcastTraining ?id,
                                  DispatchTraining ?id, BroadcastTraining ?id] @ post"
    unfolding st using cl(2) w1(2) by simp
  show ?thesis
  proof (intro conjI)
    show "fst (startTraining env req w) = replyError ''Failed to start training'' msg"
      unfolding st by simp
    show "find (\<lambda>d. t_id d = ?id) (trainings (snd (startTraining env req w))) = Some (?f d)"
      unfolding st using cl(1) upd by simp
    show "\<exists>pre post.
             trace (snd (startTraining env req w))
               = trace w @ pre @ [TrainingCreate created, BroadcastTraining ?id,
                                  DispatchTraining ?id, BroadcastTraining ?id] @ post
             \<and> list_all preEffect pre \<and> list_all postEffect post"
      using tr w1(3) cl(3) by blast
  qed
qed

theorem dispatch_failure_marks_record_failed_witness:
  "prepareStart failingStartEnv exampleRequest exampleWorld
     = (Value (exampleCreated failingStartEnv, replicateArgsFor exampleInput None),
        exampleLocals, preparedWorld)
   \<and> dispatchTraining failingStartEnv (t_id (exampleCreated failingStartEnv))
        (replicateArgsFor exampleInput None)
        (trainings preparedWorld @ [exampleCreated failingStartEnv])
       = (Some ''Replicate API unavailable'', exampleTrainings @ [exampleCreated failingStartEnv])
   \<and> find (\<lambda>d. t_id d = t_id (exampleCreated failingStartEnv))
        (exampleTrainings @ [exampleCreated failingStartEnv])
       = Some (exampleCreated failingStartEnv)
   \<and> fst (startTraining failingStartEnv exampleRequest exampleWorld)
       = replyError ''Failed to start training'' ''Replicate API unavailable''
   \<and> map_option (\<lambda>d. (status d, error d, completedAt d, map ev_type (events d)))
        (find (\<lambda>d. t_id d = 10) (trainings (snd (startTraining failingStartEnv exampleRequest exampleWorld))))
       = Some (''failed'', Some ''Replicate API unavailable'', Some 50, [''created'', ''error''])"
proof -
  let ?c = "exampleCreated failingStartEnv"
  have p: "prepareStart failingStartEnv exampleRequest exampleWorld
     = (Value (?c, replicateArgsFor exampleInput None), exampleLocals, preparedWorld)"
    unfolding failingStartEnv_def by (rule example_prepare)
  have i: "t_id ?c = 10"
    unfolding failingStartEnv_def by (rule example_created_id)
  have d: "dispatchTraining failingStartEnv (t_id ?c) (replicateArgsFor exampleInput None)
        (trainings preparedWorld @ [?c])
       = (Some ''Replicate API unavailable'', exampleTrainings @ [?c])"
    by (simp add: failingStartEnv_def startEnvWith_def preparedWorld_def)
  have f: "find (\<lambda>d. t_id d = t_id ?c) (exampleTrainings @ [?c]) = Some ?c"
    using example_find_created [of "\<lambda>n a coll. (Some ''Replicate API unavailable'', coll)"]
    by (simp add: failingStartEnv_def example_created_id)
  have ft: "failureTime failingStartEnv = 50"
    by (simp add: failingStartEnv_def startEnvWith_def)
  have ev: "map ev_type (events ?c) = [''created'']"
    by (simp add: exampleCreated_def newTraining_fields)
  note t = dispatch_failure_marks_record_failed [OF p d f]
  from t have r: "fst (startTraining failingStartEnv exampleRequest exampleWorld)
       = replyError ''Failed to start training'' ''Replicate API unavailable''" by blast
  from t have u: "find (\<lambda>d. t_id d = 10)
         (trainings (snd (startTraining failingStartEnv exampleRequest exampleWorld)))
       = Some (?c\<lparr>status := ''failed'', error := Some ''Replicate API unavailable'',
                   completedAt := Some 50,
                   events := events ?c @ [dispatchErrorEvent ''Replicate API unavailable'' 50]\<rparr>)"
    unfolding i ft by blast
  have m: "map_option (\<lambda>d. (status d, error d, completedAt d, map ev_type (events d)))
        (find (\<lambda>d. t_id d = 10) (trainings (snd (startTraining failingStartEnv exampleRequest exampleWorld))))
       = Some (''failed'', Some ''Replicate API unavailable'', Some 50, [''created'', ''error''])"
    unfolding u by (simp add: ev dispatchErrorEvent_def)
  from p d f r m show ?thesis by blast
qed

section \<open>Listing trainings\<close>

lemma isMinimal_true: "isMinimal (JString ''true'')"
  by (simp add: isMinimal_def toLowerCase_def lowerChar_def)

lemma isMinimal_TRUE: "isMinimal (JString ''TRUE'')"
  by (simp add: isMinimal_def toLowerCase_def lowerChar_def char_of_def bit_Suc_0_iff)

lemma slice_0: "slice 0 n xs = take n xs"
  by (simp add: slice_def)

text \<open>
  C10. For every training returned by \<open>getAllTrainings\<close> in minimal mode or by
  \<open>getTrainingsLean\<close>, the \<open>imageAssets\<close> and \<open>imageUrls\<close> arrays of the answer are the
  first 12 stored entries, in order (all of them when fewer are stored, none when the array
  is missing), so at most 12; in lean mode each listed asset carries the url, the size and
  the content type of the stored asset at the same position. \<open>imageAssetCount\<close> and
  \<open>imageUrlCount\<close> are the full stored lengths (0 for a missing array).
\<close>

theorem listed_images_capped:
  "(isMinimal minimal \<longrightarrow>
      length (getAllTrainingsData minimal docs) = length docs
      \<and> (\<forall>i < length docs.
            let d = docs ! i;
                v = getAllTrainingsData minimal docs ! i;
                storedAssets = (case imageAssets d of None \<Rightarrow> [] | Some xs \<Rightarrow> xs);
                storedUrls = (case imageUrls d of None \<Rightarrow> [] | Some xs \<Rightarrow> xs)
            in
            imageAssets (listed_doc v) = Some (take 12 storedAssets)
            \<and> imageUrls (listed_doc v) = Some (take 12 storedUrls)
            \<and> length (take 12 storedAssets) \<le> 12
            \<and> length (take 12 storedUrls) \<le> 12
            \<and> imageAssetCount v = Some (length storedAssets)
            \<and> imageUrlCount v = Some (length storedUrls)))
   \<and> length (getTrainingsLeanData docs) = length docs
   \<and> (\<forall>i < length docs.
         let d = docs ! i;
             v = getTrainingsLeanData docs ! i;
             storedAssets = (case imageAssets d of None \<Rightarrow> [] | Some xs \<Rightarrow> xs);
             storedUrls = (case imageUrls d of None \<Rightarrow> [] | Some xs \<Rightarrow> xs)
         in
         lean_imageAssets v
           = Some (map (\<lambda>a. \<lparr>lean_url = asset_url a, lean_size = asset_size a,
                                lean_contentType = contentType a\<rparr>)
                     (take 12 storedAssets))
         \<and> lean_imageUrls v = Some (take 12 storedUrls)
         \<and> length (take 12 storedAssets) \<le> 12
         \<and> length (take 12 storedUrls) \<le> 12
         \<and> lean_imageAssetCount v = length storedAssets
         \<and> lean_imageUrlCount v = length storedUrls)"
  by (simp add: getAllTrainingsData_def getTrainingsLeanData_def minimalView_def leanView_def
      leanProject_def leanAssetOf_def slice_0 Let_def asArray_def take_map)

lemma first_twelve:
  "take 12 exampleUrls
     = [''u0'', ''u1'', ''u2'', ''u3'', ''u4'', ''u5'', ''u6'', ''u7'', ''u8'', ''u9'', ''u10'', ''u11'']"
  "take 13 exampleUrls
     = [''u0'', ''u1'', ''u2'', ''u3'', ''u4'', ''u5'', ''u6'', ''u7'', ''u8'', ''u9'', ''u10'', ''u11'',
        ''u12'']"
  "length exampleUrls = 14"
  by (simp_all add: exampleUrls_def)

theorem listed_images_capped_witness:
  "isMinimal (JString ''true'') \<and> (1::nat) < length [manyAssetsTraining, fewAssetsTraining]
   \<and> imageAssets manyAssetsTraining = Some (map storedAssetAt (take 13 exampleUrls))
   \<and> imageUrls manyAssetsTraining = Some exampleUrls
   \<and> take 12 exampleUrls
        = [''u0'', ''u1'', ''u2'', ''u3'', ''u4'', ''u5'', ''u6'', ''u7'', ''u8'', ''u9'', ''u10'', ''u11'']
   \<and> imageAssets (listed_doc
          (getAllTrainingsData (JString ''true'') [manyAssetsTraining, fewAssetsTraining] ! 0))
        = Some (map storedAssetAt (take 12 exampleUrls))
   \<and> imageAssetCount
          (getAllTrainingsData (JString ''true'') [manyAssetsTraining, fewAssetsTraining] ! 0)
        = Some 13
   \<and> imageUrls (listed_doc
          (getAllTrainingsData (JString ''true'') [manyAssetsTraining, fewAssetsTraining] ! 0))
        = Some (take 12 exampleUrls)
   \<and> imageUrlCount
          (getAllTrainingsData (JString ''true'') [manyAssetsTraining, fewAssetsTraining] ! 0)
        = Some 14
   \<and> imageAssets (listed_doc
          (getAllTrainingsData (JString ''true'') [manyAssetsTraining, fewAssetsTraining] ! 1))
        = Some []
   \<and> imageAssetCount
          (getAllTrainingsData (JString ''true'') [manyAssetsTraining, fewAssetsTraining] ! 1)
        = Some 0
   \<and> imageUrls (listed_doc
          (getAllTrainingsData (JString ''true'') [manyAssetsTraining, fewAssetsTraining] ! 1))
        = Some [''u0'', ''u1'']
   \<and> imageUrlCount
          (getAllTrainingsData (JString ''true'') [manyAssetsTraining, fewAssetsTraining] ! 1)
        = Some 2
   \<and> lean_imageAssets (getTrainingsLeanData [manyAssetsTraining, fewAssetsTraining] ! 0)
        = Some (map (\<lambda>u. \<lparr>lean_url = Some u, lean_size = Some 2048,
                              lean_contentType = Some ''image/png''\<rparr>)
                  (take 12 exampleUrls))
   \<and> lean_imageAssetCount (getTrainingsLeanData [manyAssetsTraining, fewAssetsTraining] ! 0) = 13
   \<and> lean_imageUrls (getTrainingsLeanData [manyAssetsTraining, fewAssetsTraining] ! 0)
        = Some (take 12 exampleUrls)
   \<and> lean_imageUrlCount (getTrainingsLeanData [manyAssetsTraining, fewAssetsTraining] ! 0) = 14
   \<and> lean_imageAssets (getTrainingsLeanData [manyAssetsTraining, fewAssetsTraining] ! 1) = Some []
   \<and> lean_imageAssetCount (getTrainingsLeanData [manyAssetsTraining, fewAssetsTraining] ! 1) = 0
   \<and> lean_imageUrls (getTrainingsLeanData [manyAssetsTraining, fewAssetsTraining] ! 1)
        = Some [''u0'', ''u1'']
   \<and> lean_imageUrlCount (getTrainingsLeanData [manyAssetsTraining, fewAssetsTraining] ! 1) = 2"
proof -
  let ?docs = "[manyAssetsTraining, fewAssetsTraining]"
  have a: "imageAssets manyAssetsTraining = Some (map storedAssetAt (take 13 exampleUrls))"
    and u: "imageUrls manyAssetsTraining = Some exampleUrls"
    and fa: "imageAssets fewAssetsTraining = None"
    and fu: "imageUrls fewAssetsTraining = Some [''u0'', ''u1'']"
    by (simp_all add: manyAssetsTraining_def fewAssetsTraining_def)
  have l0: "(0::nat) < length ?docs" and l1: "(1::nat) < length ?docs" by simp_all
  have pr: "map (\<lambda>a. \<lparr>lean_url = asset_url a, lean_size = asset_size a,
                         lean_contentType = contentType a\<rparr>)
              (map storedAssetAt us)
            = map (\<lambda>u. \<lparr>lean_url = Some u, lean_size = Some 2048,
                           lean_contentType = Some ''image/png''\<rparr>) us" for us
    by (simp add: storedAssetAt_def)
  note th = listed_images_capped [of "JString ''true''" ?docs]
  from th isMinimal_true have m: "\<forall>i < length ?docs.
            let d = ?docs ! i;
                v = getAllTrainingsData (JString ''true'') ?docs ! i;
                storedAssets = (case imageAssets d of None \<Rightarrow> [] | Some xs \<Rightarrow> xs);
                storedUrls = (case imageUrls d of None \<Rightarrow> [] | Some xs \<Rightarrow> xs)
            in
            imageAssets (listed_doc v) = Some (take 12 storedAssets)
            \<and> imageUrls (listed_doc v) = Some (take 12 storedUrls)
            \<and> length (take 12 storedAssets) \<le> 12
            \<and> length (take 12 storedUrls) \<le> 12
            \<and> imageAssetCount v = Some (length storedAssets)
            \<and> imageUrlCount v = Some (length storedUrls)"
    by blast
  from th have n: "\<forall>i < length ?docs.
         let d = ?docs ! i;
             v = getTrainingsLeanData ?docs ! i;
             storedAssets = (case imageAssets d of None \<Rightarrow> [] | Some xs \<Rightarrow> xs);
             storedUrls = (case imageUrls d of None \<Rightarrow> [] | Some xs \<Rightarrow> xs)
         in
         lean_imageAssets v
           = Some (map (\<lambda>a. \<lparr>lean_url = asset_url a, lean_size = asset_size a,
                                lean_contentType = contentType a\<rparr>)
                     (take 12 storedAssets))
         \<and> lean_imageUrls v = Some (take 12 storedUrls)
         \<and> length (take 12 storedAssets) \<le> 12
         \<and> length (take 12 storedUrls) \<le> 12
         \<and> lean_imageAssetCount v = length storedAssets
         \<and> lean_imageUrlCount v = length storedUrls"
    by blast
  have len: "length (map storedAssetAt (take 13 exampleUrls)) = 13"
    by (simp add: first_twelve(3))
  have cut: "take 12 (map storedAssetAt (take 13 exampleUrls)) = map storedAssetAt (take 12 exampleUrls)"
    by (simp add: take_map)
  have d0: "?docs ! 0 = manyAssetsTraining" and d1: "?docs ! 1 = fewAssetsTraining" by simp_all
  have m0: "imageAssets (listed_doc (getAllTrainingsData (JString ''true'') ?docs ! 0))
              = Some (map storedAssetAt (take 12 exampleUrls))
          \<and> imageAssetCount (getAllTrainingsData (JString ''true'') ?docs ! 0) = Some 13
          \<and> imageUrls (listed_doc (getAllTrainingsData (JString ''true'') ?docs ! 0))
              = Some (take 12 exampleUrls)
          \<and> imageUrlCount (getAllTrainingsData (JString ''true'') ?docs ! 0) = Some 14"
    using m [rule_format, OF l0] unfolding Let_def d0 a u option.case len cut first_twelve(3)
    by blast
  have m1: "imageAssets (listed_doc (getAllTrainingsData (JString ''true'') ?docs ! 1)) = Some []
          \<and> imageAssetCount (getAllTrainingsData (JString ''true'') ?docs ! 1) = Some 0
          \<and> imageUrls (listed_doc (getAllTrainingsData (JString ''true'') ?docs ! 1))
              = Some [''u0'', ''u1'']
          \<and> imageUrlCount (getAllTrainingsData (JString ''true'') ?docs ! 1) = Some 2"
    using m [rule_format, OF l1] unfolding Let_def d1 fa fu option.case
    by simp
  have n0: "lean_imageAssets (getTrainingsLeanData ?docs ! 0)
              = Some (map (\<lambda>u. \<lparr>lean_url = Some u, lean_size = Some 2048,
                              lean_contentType = Some ''image/png''\<rparr>)
                        (take 12 exampleUrls))
          \<and> lean_imageAssetCount (getTrainingsLeanData ?docs ! 0) = 13
          \<and> lean_imageUrls (getTrainingsLeanData ?docs ! 0) = Some (take 12 exampleUrls)
          \<and> lean_imageUrlCount (getTrainingsLeanData ?docs ! 0) = 14"
    using n [rule_format, OF l0] unfolding Let_def d0 a u option.case len cut first_twelve(3) pr
    by blast
  have n1: "lean_imageAssets (getTrainingsLeanData ?docs ! 1) = Some []
          \<and> lean_imageAssetCount (getTrainingsLeanData ?docs ! 1) = 0
          \<and> lean_imageUrls (getTrainingsLeanData ?docs ! 1) = Some [''u0'', ''u1'']
          \<and> lean_imageUrlCount (getTrainingsLeanData ?docs ! 1) = 2"
    using n [rule_format, OF l1] unfolding Let_def d1 fa fu option.case
    by simp
  from isMinimal_true l1 a u first_twelve(1) m0 m1 n0 n1 show ?thesis by blast
qed

section \<open>The training stream\<close>

lemma run_Nil [simp]: "run f [] s = s"
  by (simp add: run_def)

lemma run_Cons [simp]: "run f (e # es) s = run f es (step f s e)"
  by (simp add: run_def)

lemma run_append: "run f (es @ es') s = run f es' (run f es s)"
  by (simp add: run_def)

lemma data_not_ping [simp]: "CHR ''d'' # x \<noteq> pingFrame" "pingFrame \<noteq> CHR ''d'' # x"
  by (simp_all add: pingFrame_def)

lemma count_list_replicate_same [simp]: "count_list (replicate n x) x = n"
  by (induction n) simp_all

lemma run_frames_extend: "\<exists>more. frames (run f es s) = frames s @ more"
proof (induction es arbitrary: s)
  case Nil
  show ?case by simp
next
  case (Cons e es)
  from Cons.IH [of "step f s e"] obtain more where
    m: "frames (run f es (step f s e)) = frames (step f s e) @ more" by blast
  have "\<exists>m1. frames (step f s e) = frames s @ m1"
    by (cases e) (auto simp: publish_def send_def elapse_def onClose_def split: option.splits)
  with m show ?case by auto
qed

lemma run_closed_silent:
  "\<not> subscribed s \<Longrightarrow> heartbeat s = None \<Longrightarrow>
     frames (run f es s) = frames s \<and> \<not> subscribed (run f es s) \<and> heartbeat (run f es s) = None"
proof (induction es arbitrary: s)
  case Nil
  then show ?case by simp
next
  case (Cons e es)
  have "step f s e = s \<or> step f s e = onClose s"
    using Cons.prems by (cases e) (simp_all add: publish_def elapse_def)
  moreover have "onClose s = s" using Cons.prems by (simp add: onClose_def)
  ultimately have "step f s e = s" by auto
  with Cons show ?case by simp
qed

lemma run_open:
  assumes "Closed \<notin> set es" "subscribed s" "heartbeat s = Some 25000" "sinceBeat s < 25000"
  shows "subscribed (run f es s) \<and> heartbeat (run f es s) = Some 25000
       \<and> sinceBeat (run f es s) < 25000
       \<and> count_list (frames (run f es s)) pingFrame * 25000 + sinceBeat (run f es s)
           = count_list (frames s) pingFrame * 25000 + sinceBeat s + elapsedTotal es"
  using assms
proof (induction es arbitrary: s)
  case Nil
  then show ?case by simp
next
  case (Cons e es)
  show ?case
  proof (cases e)
    case (Published p)
    let ?s = "publish f p s"
    have st: "subscribed ?s" "heartbeat ?s = Some 25000" "sinceBeat ?s < 25000"
      using Cons.prems by (auto simp: publish_def send_def split: option.splits)
    have c: "count_list (frames ?s) pingFrame = count_list (frames s) pingFrame"
            "sinceBeat ?s = sinceBeat s"
      using Cons.prems by (auto simp: publish_def send_def split: option.splits)
    from Cons.prems have "Closed \<notin> set es" by simp
    from Cons.IH [OF this st] c Published show ?thesis by simp
  next
    case (Elapsed ms)
    let ?s = "elapse ms s"
    have st: "subscribed ?s" "heartbeat ?s = Some 25000" "sinceBeat ?s < 25000"
      using Cons.prems by (auto simp: elapse_def)
    have c: "count_list (frames ?s) pingFrame * 25000 + sinceBeat ?s
               = count_list (frames s) pingFrame * 25000 + sinceBeat s + ms"
      using Cons.prems by (simp add: elapse_def add.commute add.left_commute)
    from Cons.prems have "Closed \<notin> set es" by simp
    from Cons.IH [OF this st] c Elapsed show ?thesis by simp
  next
    case Closed
    with Cons.prems show ?thesis by simp
  qed
qed

text \<open>The frames other than pings are the expected messages, for every sequence of events
  on a connection that starts open.\<close>

lemma run_data_frames:
  assumes "subscribed s" "heartbeat s = Some 25000"
  shows "filter (\<lambda>x. x \<noteq> pingFrame) (frames (run f es s))
           = filter (\<lambda>x. x \<noteq> pingFrame) (frames s) @ expectedDataFrames f es"
  using assms
proof (induction es arbitrary: s)
  case Nil
  then show ?case by simp
next
  case (Cons e es)
  show ?case
  proof (cases e)
    case (Published p)
    show ?thesis
    proof (cases p)
      case NoPayload
      have "step f s e = s"
        using Cons.prems Published NoPayload by (simp add: publish_def send_def serialiseTraining_def)
      with Cons.IH [OF Cons.prems] Published NoPayload show ?thesis by simp
    next
      case (Document d)
      let ?s = "s\<lparr>frames := frames s @ [''data: '' @ f d @ [CHR 0x0A, CHR 0x0A]]\<rparr>"
      have st: "step f s e = ?s"
        using Cons.prems Published Document
        by (simp add: publish_def send_def serialiseTraining_def frameEnd_def)
      have "subscribed ?s" "heartbeat ?s = Some 25000" using Cons.prems by simp_all
      from Cons.IH [OF this] st Published Document show ?thesis by simp
    next
      case (PlainObject d)
      let ?s = "s\<lparr>frames := frames s @ [''data: '' @ f d @ [CHR 0x0A, CHR 0x0A]]\<rparr>"
      have st: "step f s e = ?s"
        using Cons.prems Published PlainObject
        by (simp add: publish_def send_def serialiseTraining_def frameEnd_def)
      have "subscribed ?s" "heartbeat ?s = Some 25000" using Cons.prems by simp_all
      from Cons.IH [OF this] st Published PlainObject show ?thesis by simp
    qed
  next
    case (Elapsed ms)
    let ?s = "elapse ms s"
    have st: "subscribed ?s" "heartbeat ?s = Some 25000"
      using Cons.prems by (auto simp: elapse_def)
    have fl: "filter (\<lambda>x. x \<noteq> pingFrame) (frames ?s) = filter (\<lambda>x. x \<noteq> pingFrame) (frames s)"
      using Cons.prems by (simp add: elapse_def)
    from Cons.IH [OF st] fl Elapsed show ?thesis by simp
  next
    case Closed
    have "frames (run f es (onClose s)) = frames (onClose s)"
      using run_closed_silent [of "onClose s" f es] by (simp add: onClose_def)
    with Closed show ?thesis by (simp add: onClose_def)
  qed
qed

lemma streamTrainings_fields:
  "subscribed streamTrainings" "heartbeat streamTrainings = Some 25000"
  "sinceBeat streamTrainings = 0" "frames streamTrainings = [startFrame]"
  by (simp_all add: streamTrainings_def)

lemma start_not_ping: "startFrame \<noteq> pingFrame"
  by (simp add: startFrame_def pingFrame_def)

lemma frame_literals:
  "startFrame = '': stream-start'' @ [CHR 0x0A, CHR 0x0A]"
  "pingFrame = '': ping'' @ [CHR 0x0A, CHR 0x0A]"
  by (simp_all add: startFrame_def pingFrame_def frameEnd_def)

lemma count_from_remainder:
  fixes c r t :: nat
  assumes "c * 25000 + r = t" "r < 25000"
  shows "c = t div 25000"
proof -
  have "t div 25000 = (r + c * 25000) div 25000" using assms(1) by (simp add: add.commute)
  also have "\<dots> = c" using assms(2) by simp
  finally show ?thesis by simp
qed

text \<open>
  C8. For every connection opened by \<open>streamTrainings\<close> and every sequence of events on it:
  the first frame written is the \<^verbatim>\<open>: stream-start\<close> comment; the frames other than pings
  are that comment followed by one \<^verbatim>\<open>data:\<close> message for each record published before
  the close, carrying its JSON serialisation, in order; while the connection is open the
  subscription and the 25000 ms heartbeat interval are in place and one \<^verbatim>\<open>: ping\<close> comment
  has been written for each full 25 seconds elapsed; on close the interval is cleared and
  the subscription removed, and nothing is written afterwards.
\<close>

theorem stream_lifecycle:
  "take 1 (frames (run f es streamTrainings)) = ['': stream-start'' @ [CHR 0x0A, CHR 0x0A]]
   \<and> filter (\<lambda>x. x \<noteq> '': ping'' @ [CHR 0x0A, CHR 0x0A]) (frames (run f es streamTrainings))
       = ('': stream-start'' @ [CHR 0x0A, CHR 0x0A]) # expectedDataFrames f es
   \<and> (Closed \<notin> set es \<longrightarrow>
        subscribed (run f es streamTrainings)
        \<and> heartbeat (run f es streamTrainings) = Some 25000
        \<and> count_list (frames (run f es streamTrainings)) ('': ping'' @ [CHR 0x0A, CHR 0x0A])
            = elapsedTotal es div 25000)
   \<and> heartbeat (run f (es @ [Closed]) streamTrainings) = None
   \<and> \<not> subscribed (run f (es @ [Closed]) streamTrainings)
   \<and> frames (run f (es @ [Closed] @ later) streamTrainings) = frames (run f es streamTrainings)"
proof (intro conjI impI)
  from run_frames_extend [of f es streamTrainings]
  show "take 1 (frames (run f es streamTrainings)) = ['': stream-start'' @ [CHR 0x0A, CHR 0x0A]]"
    by (auto simp: streamTrainings_fields frame_literals)
next
  from run_data_frames [OF streamTrainings_fields(1,2), of f es]
  show "filter (\<lambda>x. x \<noteq> '': ping'' @ [CHR 0x0A, CHR 0x0A]) (frames (run f es streamTrainings))
       = ('': stream-start'' @ [CHR 0x0A, CHR 0x0A]) # expectedDataFrames f es"
    unfolding frame_literals [symmetric]
    by (simp add: streamTrainings_fields start_not_ping)
next
  assume isopen: "Closed \<notin> set es"
  note inv = run_open [OF isopen streamTrainings_fields(1,2), of f, simplified streamTrainings_fields]
  from inv show "subscribed (run f es streamTrainings)"
    and "heartbeat (run f es streamTrainings) = Some 25000" by simp_all
  from inv have "count_list (frames (run f es streamTrainings)) pingFrame * 25000
                   + sinceBeat (run f es streamTrainings) = elapsedTotal es"
    and "sinceBeat (run f es streamTrainings) < 25000"
    by (simp_all add: start_not_ping)
  then have "count_list (frames (run f es streamTrainings)) pingFrame = elapsedTotal es div 25000"
    by (rule count_from_remainder)
  then show "count_list (frames (run f es streamTrainings)) ('': ping'' @ [CHR 0x0A, CHR 0x0A])
            = elapsedTotal es div 25000"
    unfolding frame_literals .
next
  let ?c = "run f (es @ [Closed]) streamTrainings"
  have c: "?c = onClose (run f es streamTrainings)"
    by (simp add: run_append)
  show "heartbeat ?c = None" and "\<not> subscribed ?c"
    unfolding c by (simp_all add: onClose_def)
  have "run f (es @ [Closed] @ later) streamTrainings = run f later ?c"
    by (simp add: run_append)
  moreover have "frames (run f later ?c) = frames ?c"
    using run_closed_silent [of ?c f later] unfolding c by (simp add: onClose_def)
  moreover have "frames ?c = frames (run f es streamTrainings)"
    unfolding c by (simp add: onClose_def)
  ultimately show "frames (run f (es @ [Closed] @ later) streamTrainings)
                     = frames (run f es streamTrainings)"
    by simp
qed

theorem stream_lifecycle_witness:
  "Closed \<notin> set [Published (Document queuedTraining), Elapsed 60000, Published NoPayload,
                    Published (PlainObject processingTraining)]
   \<and> frames (run (\<lambda>t. status t)
         [Published (Document queuedTraining), Elapsed 60000, Published NoPayload,
          Published (PlainObject processingTraining)] streamTrainings)
       = ['': stream-start'' @ [CHR 0x0A, CHR 0x0A],
          ''data: queued'' @ [CHR 0x0A, CHR 0x0A],
          '': ping'' @ [CHR 0x0A, CHR 0x0A],
          '': ping'' @ [CHR 0x0A, CHR 0x0A],
          ''data: processing'' @ [CHR 0x0A, CHR 0x0A]]
   \<and> expectedDataFrames (\<lambda>t. status t)
         [Published (Document queuedTraining), Elapsed 60000, Published NoPayload,
          Published (PlainObject processingTraining)]
       = [''data: queued'' @ [CHR 0x0A, CHR 0x0A], ''data: processing'' @ [CHR 0x0A, CHR 0x0A]]
   \<and> count_list (frames (run (\<lambda>t. status t)
         [Published (Document queuedTraining), Elapsed 60000, Published NoPayload,
          Published (PlainObject processingTraining)] streamTrainings))
         ('': ping'' @ [CHR 0x0A, CHR 0x0A]) = 2
   \<and> subscribed (run (\<lambda>t. status t)
         [Published (Document queuedTraining), Elapsed 60000, Published NoPayload,
          Published (PlainObject processingTraining)] streamTrainings)
   \<and> \<not> subscribed (run (\<lambda>t. status t)
         ([Published (Document queuedTraining), Elapsed 60000, Published NoPayload,
           Published (PlainObject processingTraining)] @ [Closed]) streamTrainings)"
proof -
  let ?es = "[Published (Document queuedTraining), Elapsed 60000, Published NoPayload,
              Published (PlainObject processingTraining)]"
  have o: "Closed \<notin> set ?es" by simp
  have t: "elapsedTotal ?es div 25000 = 2" by simp
  have d: "replicate 2 x = [x, x]" for x :: string by (simp add: numeral_2_eq_2)
  have m: "status queuedTraining = ''queued''" "status processingTraining = ''processing''"
    by (simp_all add: queuedTraining_def processingTraining_def)
  have fr: "frames (run (\<lambda>t. status t) ?es streamTrainings)
       = ['': stream-start'' @ [CHR 0x0A, CHR 0x0A],
          ''data: queued'' @ [CHR 0x0A, CHR 0x0A],
          '': ping'' @ [CHR 0x0A, CHR 0x0A],
          '': ping'' @ [CHR 0x0A, CHR 0x0A],
          ''data: processing'' @ [CHR 0x0A, CHR 0x0A]]"
    by (simp add: streamTrainings_def elapse_def publish_def send_def serialiseTraining_def d m
        startFrame_def pingFrame_def frameEnd_def)
  have ex: "expectedDataFrames (\<lambda>t. status t) ?es
       = [''data: queued'' @ [CHR 0x0A, CHR 0x0A], ''data: processing'' @ [CHR 0x0A, CHR 0x0A]]"
    by (simp add: m)
  note th = stream_lifecycle [of "\<lambda>t. status t" ?es "[]"]
  from th o t have c: "count_list (frames (run (\<lambda>t. status t) ?es streamTrainings))
         ('': ping'' @ [CHR 0x0A, CHR 0x0A]) = 2"
    by simp
  from th o have s: "subscribed (run (\<lambda>t. status t) ?es streamTrainings)" by blast
  from th have n: "\<not> subscribed (run (\<lambda>t. status t) (?es @ [Closed]) streamTrainings)" by blast
  from o fr ex c s n show ?thesis by blast
qed

end
